theory Spec2Isabelle
  imports Complex_Main "HOL-Library.Sublist"
begin

section \<open>Strings\<close>

text \<open>
  A Python \<^verbatim>\<open>str\<close> is a sequence of Unicode code points. The texts handled here are
  Tamil (U+0B80..U+0BFF), so a string is a list of code points, written in hexadecimal.
  Substring test (\<^verbatim>\<open>a in b\<close>) is \<^const>\<open>sublist\<close>, \<^verbatim>\<open>startswith\<close> is \<^const>\<open>prefix\<close> and
  \<^verbatim>\<open>endswith\<close> is \<^const>\<open>suffix\<close>.
\<close>

type_synonym ustring = "nat list"

text \<open>The characters for which \<^verbatim>\<open>str.isspace\<close> holds; the same set is matched by
  \<^verbatim>\<open>\s\<close> in a \<^verbatim>\<open>re\<close> pattern over \<^verbatim>\<open>str\<close>, stripped by \<^verbatim>\<open>str.strip()\<close> and split at by
  \<^verbatim>\<open>str.split()\<close>.\<close>

definition isspace :: "nat \<Rightarrow> bool" where
  "isspace c \<longleftrightarrow>
     (0x9 \<le> c \<and> c \<le> 0xD) \<or> (0x1C \<le> c \<and> c \<le> 0x20) \<or> c = 0x85 \<or> c = 0xA0 \<or>
     c = 0x1680 \<or> (0x2000 \<le> c \<and> c \<le> 0x200A) \<or> c = 0x2028 \<or> c = 0x2029 \<or>
     c = 0x202F \<or> c = 0x205F \<or> c = 0x3000"

text \<open>The character class U+0B80..U+0BFF of \<^verbatim>\<open>tamil_pattern\<close>.\<close>

definition is_tamil :: "nat \<Rightarrow> bool" where
  "is_tamil c \<longleftrightarrow> 0xB80 \<le> c \<and> c \<le> 0xBFF"

text \<open>\<^verbatim>\<open>str.strip()\<close>.\<close>

definition strip :: "ustring \<Rightarrow> ustring" where
  "strip s = rev (dropWhile isspace (rev (dropWhile isspace s)))"

text \<open>\<^verbatim>\<open>re.sub(r'\s+', ' ', text)\<close>: every maximal run of whitespace becomes one space.
  The flag says whether the previous character belonged to a run already replaced.\<close>

fun sub_ws :: "bool \<Rightarrow> ustring \<Rightarrow> ustring" where
  "sub_ws in_run [] = []"
| "sub_ws in_run (c # cs) =
     (if isspace c then (if in_run then sub_ws True cs else 0x20 # sub_ws True cs)
      else c # sub_ws False cs)"

text \<open>\<^verbatim>\<open>str.split()\<close> without arguments: the maximal runs of non-whitespace characters.
  The first argument is the word read so far.\<close>

fun split_ws :: "ustring \<Rightarrow> ustring \<Rightarrow> ustring list" where
  "split_ws w [] = (if w = [] then [] else [w])"
| "split_ws w (c # cs) =
     (if isspace c then (if w = [] then split_ws [] cs else w # split_ws [] cs)
      else split_ws (w @ [c]) cs)"

definition str_split :: "ustring \<Rightarrow> ustring list" where
  "str_split s = split_ws [] s"

text \<open>\<^verbatim>\<open>str.isdigit()\<close>: non-empty and every character a digit. It is only applied to
  normalised text, whose characters are Tamil or the space; the digits of the Tamil block
  are U+0BE6..U+0BEF (the number signs U+0BF0..U+0BF2 are numeric but not digits). The
  ASCII digits are listed too.\<close>

definition is_digit_char :: "nat \<Rightarrow> bool" where
  "is_digit_char c \<longleftrightarrow> (0x30 \<le> c \<and> c \<le> 0x39) \<or> (0xBE6 \<le> c \<and> c \<le> 0xBEF)"

definition isdigit :: "ustring \<Rightarrow> bool" where
  "isdigit s \<longleftrightarrow> s \<noteq> [] \<and> list_all is_digit_char s"

text \<open>\<^verbatim>\<open>str(n)\<close> for an integer: decimal digits, with a minus sign when negative.\<close>

fun str_nat :: "nat \<Rightarrow> ustring" where
  "str_nat n = (if n < 10 then [0x30 + n] else str_nat (n div 10) @ [0x30 + n mod 10])"

declare str_nat.simps [simp del]

definition str_int :: "int \<Rightarrow> ustring" where
  "str_int i = (if i < 0 then 0x2D # str_nat (nat (- i)) else str_nat (nat i))"

section \<open>Text processor (text\_processor.py)\<close>

definition clean_text :: "ustring \<Rightarrow> ustring" where
  "clean_text text = (if text = [] then [] else strip (sub_ws False text))"

definition normalize_text :: "ustring \<Rightarrow> ustring" where
  "normalize_text text =
     strip (sub_ws False (filter (\<lambda>c. is_tamil c \<or> isspace c) text))"

definition is_valid_tamil :: "ustring \<Rightarrow> bool" where
  "is_valid_tamil text \<longleftrightarrow> list_ex is_tamil text"

definition preprocess_for_analysis :: "ustring \<Rightarrow> ustring" where
  "preprocess_for_analysis text =
     (let text = clean_text text in if \<not> is_valid_tamil text then [] else text)"

section \<open>Word tables of the query classifier\<close>

text \<open>The literal lists of \<^verbatim>\<open>_fuzzy_search_all_books\<close>, in source order, one word per line.\<close>

definition verb_endings :: "ustring list" where
  "verb_endings = [
     [0xB95, 0xBBF, 0xBB1, 0xBC7, 0xBA9, 0xBCD],
     [0xB95, 0xBBF, 0xBB1, 0xBBE, 0xBAF, 0xBCD],
     [0xB95, 0xBBF, 0xBB1, 0xBBE, 0xBB0, 0xBCD],
     [0xB95, 0xBBF, 0xBB1, 0xBCB, 0xBAE, 0xBCD],
     [0xB95, 0xBBF, 0xBB1, 0xBC0, 0xBB0, 0xBCD],
     [0xB95, 0xBBF, 0xBB1, 0xBBE, 0xBB0, 0xBCD, 0xB95, 0xBB3, 0xBCD],
     [0xB95, 0xBBF, 0xBB1, 0xBA4, 0xBC1],
     [0xB95, 0xBBF, 0xBA9, 0xBCD, 0xBB1, 0xBA9],
     [0xBB5, 0xBC7, 0xBA9, 0xBCD],
     [0xBB5, 0xBBE, 0xBAF, 0xBCD],
     [0xBB5, 0xBBE, 0xBB0, 0xBCD],
     [0xBB5, 0xBCB, 0xBAE, 0xBCD],
     [0xBB5, 0xBC0, 0xBB0, 0xBCD],
     [0xBB5, 0xBBE, 0xBB0, 0xBCD, 0xB95, 0xBB3, 0xBCD],
     [0xBA4, 0xBC7, 0xBA9, 0xBCD],
     [0xBA4, 0xBBE, 0xBAF, 0xBCD],
     [0xBA4, 0xBBE, 0xBB0, 0xBCD],
     [0xBA4, 0xBCB, 0xBAE, 0xBCD],
     [0xBA4, 0xBC0, 0xBB0, 0xBCD],
     [0xBA4, 0xBBE, 0xBB0, 0xBCD, 0xB95, 0xBB3, 0xBCD],
     [0xBA8, 0xBCD, 0xBA4, 0xBC7, 0xBA9, 0xBCD],
     [0xBA8, 0xBCD, 0xBA4, 0xBBE, 0xBAF, 0xBCD],
     [0xBA8, 0xBCD, 0xBA4, 0xBBE, 0xBB0, 0xBCD],
     [0xBA8, 0xBCD, 0xBA4, 0xBCB, 0xBAE, 0xBCD],
     [0xB9F, 0xBCD, 0xB9F, 0xBC7, 0xBA9, 0xBCD],
     [0xB9F, 0xBCD, 0xB9F, 0xBBE, 0xBAF, 0xBCD],
     [0xB9F, 0xBCD, 0xB9F, 0xBBE, 0xBB0, 0xBCD],
     [0xB9F, 0xBCD, 0xB9F, 0xBCB, 0xBAE, 0xBCD],
     [0xB95, 0xBCD, 0xB95, 0xBBF, 0xBB1, 0xBC7, 0xBA9, 0xBCD],
     [0xBAA, 0xBCD, 0xBAA, 0xBC7, 0xBA9, 0xBCD],
     [0xBAA, 0xBCD, 0xBAA, 0xBCB, 0xBAE, 0xBCD]]"

definition time_indicators :: "ustring list" where
  "time_indicators = [
     [0xB87, 0xBA9, 0xBCD, 0xBB1, 0xBC1],
     [0xBA8, 0xBC7, 0xBB1, 0xBCD, 0xBB1, 0xBC1],
     [0xBA8, 0xBBE, 0xBB3, 0xBC8],
     [0xB87, 0xBA9, 0xBCD, 0xBB1, 0xBC8, 0xB95, 0xBCD, 0xB95, 0xBC1],
     [0xBA8, 0xBC7, 0xBB1, 0xBCD, 0xBB1, 0xBC8, 0xB95, 0xBCD, 0xB95, 0xBC1],
     [0xB95, 0xBBE, 0xBB2, 0xBC8, 0xBAF, 0xBBF, 0xBB2, 0xBCD],
     [0xBAE, 0xBBE, 0xBB2, 0xBC8, 0xBAF, 0xBBF, 0xBB2, 0xBCD],
     [0xB87, 0xBB0, 0xBB5, 0xBBF, 0xBB2, 0xBCD],
     [0xBAE, 0xBA4, 0xBBF, 0xBAF, 0xBAE, 0xBCD],
     [0xB87, 0xBAA, 0xBCD, 0xBAA, 0xBCB, 0xBA4, 0xBC1],
     [0xB85, 0xBAA, 0xBCD, 0xBAA, 0xBCB, 0xBA4, 0xBC1],
     [0xBAA, 0xBBF, 0xBB1, 0xB95, 0xBC1],
     [0xBAE, 0xBC1, 0xBA9, 0xBCD, 0xBAA, 0xBC1]]"

definition modern_words :: "ustring list" where
  "modern_words = [
     [0xBAA, 0xBC1, 0xBA4, 0xBCD, 0xBA4, 0xB95, 0xBAE, 0xBCD],
     [0xBAA, 0xBB3, 0xBCD, 0xBB3, 0xBBF],
     [0xB95, 0xBBE, 0xBB0, 0xBCD],
     [0xBAA, 0xBC7, 0xBB0, 0xBC1, 0xBA8, 0xBCD, 0xBA4, 0xBC1],
     [0xBB0, 0xBAF, 0xBBF, 0xBB2, 0xBCD],
     [0xB95, 0xBA3, 0xBBF, 0xBA9, 0xBBF],
     [0xBAA, 0xBCB, 0xBA9, 0xBCD],
     [0xB9F, 0xBBF, 0xBB5, 0xBBF],
     [0xBAA, 0xBA3, 0xBAE, 0xBCD],
     [0xB8A, 0xBB0, 0xBCD],
     [0xBB5, 0xBC0, 0xB9F, 0xBCD, 0xB9F, 0xBBF, 0xBB2, 0xBCD],
     [0xB95, 0xB9F, 0xBC8],
     [0xBAE, 0xBBE, 0xBB0, 0xBCD, 0xB95, 0xBCD, 0xB95, 0xBC6, 0xB9F, 0xBCD],
     [0xB86, 0xBAA, 0xBC0, 0xBB8, 0xBCD],
     [0xBB5, 0xBC7, 0xBB2, 0xBC8]]"

text \<open>The six character names of the structural pre-check (source line 140).\<close>

definition kamba_characters :: "ustring list" where
  "kamba_characters = [
     [0xB87, 0xBB0, 0xBBE, 0xBAE, 0xBA9, 0xBCD],
     [0xB9A, 0xBC0, 0xBA4, 0xBC8],
     [0xBB2, 0xB9F, 0xBCD, 0xB9A, 0xBC1, 0xBAE, 0xBA3, 0xBA9, 0xBCD],
     [0xB87, 0xBB0, 0xBBE, 0xBB5, 0xBA3, 0xBA9, 0xBCD],
     [0xB85, 0xBA9, 0xBC1, 0xBAE, 0xBA9, 0xBCD],
     [0xBA4, 0xB9A, 0xBB0, 0xBA4, 0xBA9, 0xBCD]]"

text \<open>The list of the same name that the loop over the books assigns (source line 192):
  sixteen entries, the fifth name occurring twice.\<close>

definition kamba_characters_book :: "ustring list" where
  "kamba_characters_book = [
     [0xB87, 0xBB0, 0xBBE, 0xBAE, 0xBA9, 0xBCD],
     [0xB9A, 0xBC0, 0xBA4, 0xBC8],
     [0xBB2, 0xB9F, 0xBCD, 0xB9A, 0xBC1, 0xBAE, 0xBA3, 0xBA9, 0xBCD],
     [0xB87, 0xBB0, 0xBBE, 0xBB5, 0xBA3, 0xBA9, 0xBCD],
     [0xB85, 0xBA9, 0xBC1, 0xBAE, 0xBA9, 0xBCD],
     [0xBA4, 0xB9A, 0xBB0, 0xBA4, 0xBA9, 0xBCD],
     [0xB85, 0xBA9, 0xBC1, 0xBAE, 0xBA9, 0xBCD],
     [0xBAA, 0xBB0, 0xBA4, 0xBA9, 0xBCD],
     [0xB9A, 0xBC1, 0xB95, 0xBCD, 0xBB0, 0xBC0, 0xBB5, 0xBA9, 0xBCD],
     [0xBB5, 0xBBF, 0xBAA, 0xBC0, 0xBB7, 0xBA3, 0xBA9, 0xBCD],
     [0xB95, 0xBC8, 0xB95, 0xBC7, 0xBAF, 0xBBF],
     [0xBB5, 0xBBE, 0xBB2, 0xBBF],
     [0xB95, 0xBC1, 0xBAE, 0xBCD, 0xBAA, 0xB95, 0xBB0, 0xBCD, 0xBA3, 0xBA9, 0xBCD],
     [0xB87, 0xBA8, 0xBCD, 0xBA4, 0xBBF, 0xBB0, 0xB9C, 0xBBF, 0xBA4, 0xBCD],
     [0xB9C, 0xB9F, 0xBBE, 0xBAF, 0xBC1],
     [0xBAE, 0xBBE, 0xBB0, 0xBC0, 0xB9A, 0xBA9, 0xBCD]]"

section \<open>Query classifier (lines 80--174 of semantic\_analyzer\_multi.py)\<close>

text \<open>Every definition takes the normalised query.\<close>

definition query_word_count :: "ustring \<Rightarrow> nat" where
  "query_word_count nq = length (str_split nq)"

definition has_modern_verb :: "ustring \<Rightarrow> bool" where
  "has_modern_verb nq \<longleftrightarrow>
     list_ex (\<lambda>word. list_ex (\<lambda>ending. suffix ending word) verb_endings) (str_split nq)"

definition has_time_indicator :: "ustring \<Rightarrow> bool" where
  "has_time_indicator nq \<longleftrightarrow> list_ex (\<lambda>word. word \<in> set time_indicators) (str_split nq)"

definition has_modern_word :: "ustring \<Rightarrow> bool" where
  "has_modern_word nq \<longleftrightarrow> list_ex (\<lambda>word. word \<in> set modern_words) (str_split nq)"

definition is_modern_sentence :: "ustring \<Rightarrow> bool" where
  "is_modern_sentence nq \<longleftrightarrow>
     has_modern_verb nq \<or> (has_time_indicator nq \<and> query_word_count nq \<ge> 2) \<or> has_modern_word nq"

definition is_short_query :: "ustring \<Rightarrow> bool" where
  "is_short_query nq \<longleftrightarrow> query_word_count nq \<le> 3"

definition query_lines :: "ustring \<Rightarrow> nat" where
  "query_lines nq = count_list nq 0xA + 1"

definition looks_like_thirukkural :: "ustring \<Rightarrow> bool" where
  "looks_like_thirukkural nq \<longleftrightarrow>
     query_lines nq = 2 \<and> 6 \<le> query_word_count nq \<and> query_word_count nq \<le> 10"

definition has_kamba_character :: "ustring \<Rightarrow> bool" where
  "has_kamba_character nq \<longleftrightarrow> list_ex (\<lambda>name. sublist name nq) kamba_characters"

definition looks_like_kamba :: "ustring \<Rightarrow> bool" where
  "looks_like_kamba nq \<longleftrightarrow>
     query_word_count nq > 10 \<or> query_lines nq > 2 \<or> has_kamba_character nq"

definition looks_like_verse :: "ustring \<Rightarrow> bool" where
  "looks_like_verse nq \<longleftrightarrow> looks_like_thirukkural nq \<or> looks_like_kamba nq"

definition strict_sentence_mode :: "ustring \<Rightarrow> bool" where
  "strict_sentence_mode nq \<longleftrightarrow>
     \<not> looks_like_verse nq \<and>
     ((is_modern_sentence nq \<and> query_word_count nq \<ge> 2) \<or> is_short_query nq)"

definition sentence_threshold :: "ustring \<Rightarrow> int" where
  "sentence_threshold nq = (if strict_sentence_mode nq then 98 else 70)"

text \<open>The length-banded threshold of lines 162--167, which replaces the parameter
  \<^verbatim>\<open>threshold\<close> whatever the caller passed.\<close>

definition length_threshold :: "ustring \<Rightarrow> int" where
  "length_threshold nq =
     (if length nq > 100 then 50 else if length nq > 50 then 48 else 50)"

text \<open>The threshold with which the loop over the books starts (lines 170--171).\<close>

definition initial_threshold :: "ustring \<Rightarrow> int" where
  "initial_threshold nq =
     (if strict_sentence_mode nq then sentence_threshold nq else length_threshold nq)"

definition is_number_search :: "ustring \<Rightarrow> bool" where
  "is_number_search nq \<longleftrightarrow> isdigit (strip nq)"

section \<open>Data model\<close>

text \<open>A verse entry of a database file. Every field the code reads is read with
  \<^verbatim>\<open>.get\<close> and a default, so a field is optional. The field \<^verbatim>\<open>verse_number\<close> may be a
  JSON number or a JSON string.\<close>

datatype jnum = JInt int | JStr ustring

record verse_data =
  verse_number :: "jnum option"
  verse :: "ustring option"
  meaning :: "ustring option"
  chapter_name :: "ustring option"
  kandam :: "ustring option"
  section_name :: "ustring option"
  summary :: "ustring option"
  tamil_book_name :: "ustring option"
  english_meaning :: "ustring option"
  theme :: "ustring option"
  moral :: "ustring option"
  author :: "ustring option"
  characters :: "ustring list option"

text \<open>\<^verbatim>\<open>d.get(key, default)\<close> on an optional field.\<close>

definition get_or :: "'a option \<Rightarrow> 'a \<Rightarrow> 'a" where
  "get_or field dflt = (case field of None \<Rightarrow> dflt | Some x \<Rightarrow> x)"

text \<open>\<^verbatim>\<open>str(verse_data.get('verse_number', ''))\<close>.\<close>

definition verse_num_str :: "verse_data \<Rightarrow> ustring" where
  "verse_num_str vd =
     (case verse_number vd of None \<Rightarrow> [] | Some (JInt i) \<Rightarrow> str_int i | Some (JStr s) \<Rightarrow> s)"

text \<open>A loaded database: the title of its metadata and its verses. A file that is missing
  or unreadable loads as the empty dictionary, which is \<open>\<lparr>title = None, verses = []\<rparr>\<close>.\<close>

record book_db =
  title :: "ustring option"
  verses :: "verse_data list"

datatype book_key = thirukkural | kamba_ramayanam

text \<open>The dictionary that \<^verbatim>\<open>_fuzzy_search_all_books\<close> returns: the verse entry with the
  keys \<^verbatim>\<open>match_score\<close>, \<^verbatim>\<open>verse_number\<close> (as a string), \<^verbatim>\<open>book_key\<close> and \<^verbatim>\<open>book\<close>
  added, and \<^verbatim>\<open>boost_applied\<close> unless the verse was found by its number.\<close>

record match =
  entry :: verse_data
  match_score :: rat
  number_str :: ustring
  match_book_key :: book_key
  book :: ustring
  boost_applied :: "rat option"

text \<open>The two similarity measures of the library \<^verbatim>\<open>fuzzywuzzy\<close>, which is not part of the
  repository: parameters of the model.\<close>

record fuzz =
  token_set_ratio :: "ustring \<Rightarrow> ustring \<Rightarrow> int"
  partial_ratio :: "ustring \<Rightarrow> ustring \<Rightarrow> int"

record analyzer =
  thirukkural_db :: book_db
  kamba_db :: book_db

section \<open>Per-verse score (lines 252--375)\<close>

text \<open>Scores are Python numbers, integers or floats; they are rationals here, with exact
  arithmetic. \<^verbatim>\<open>int(x)\<close> truncates towards zero. The code multiplies in binary floating
  point, where a product can fall just below an integer that the exact product reaches:
  \<^verbatim>\<open>int\<close> of it is then one less than \<open>py_int\<close> of the exact product (27 for 28 at a
  fuzzy score of 70 with two of six words in common). It is never more, and the order of
  two scores is kept.\<close>

definition py_int :: "rat \<Rightarrow> rat" where
  "py_int x = (if x \<ge> 0 then of_int \<lfloor>x\<rfloor> else of_int \<lceil>x\<rceil>)"

text \<open>\<^verbatim>\<open>len(common_words) / len(query_words) if query_words else 0\<close>.\<close>

definition overlap_ratio :: "nat \<Rightarrow> nat \<Rightarrow> rat" where
  "overlap_ratio n_common n_query = (if n_query \<noteq> 0 then of_nat n_common / of_nat n_query else 0)"

text \<open>The sets \<^verbatim>\<open>query_words\<close> and \<^verbatim>\<open>common_words\<close>, as duplicate-free lists.\<close>

definition query_word_set :: "ustring \<Rightarrow> ustring list" where
  "query_word_set nq = remdups (str_split nq)"

definition common_words :: "ustring \<Rightarrow> ustring \<Rightarrow> ustring list" where
  "common_words nq nv = filter (\<lambda>w. w \<in> set (str_split nv)) (query_word_set nq)"

text \<open>The substring branch (lines 273--294), from the two lengths and the two word counts.\<close>

definition containment_bands :: "nat \<Rightarrow> nat \<Rightarrow> nat \<Rightarrow> nat \<Rightarrow> rat" where
  "containment_bands query_len verse_len n_common n_query =
     (if of_nat query_len \<ge> of_nat verse_len * (8/10 :: rat) then 95
      else if of_nat query_len \<ge> of_nat verse_len * (5/10 :: rat) then 85
      else if overlap_ratio n_common n_query \<ge> 5/10 then 80
      else py_int (70 * overlap_ratio n_common n_query))"

definition containment_score :: "ustring \<Rightarrow> ustring \<Rightarrow> rat" where
  "containment_score nq nv =
     containment_bands (length nq) (length nv)
       (length (common_words nq nv)) (length (query_word_set nq))"

text \<open>The validation of a fuzzy score (lines 306--360), from the fuzzy score, the two
  lengths and the two word counts.\<close>

definition fuzzy_validate :: "rat \<Rightarrow> nat \<Rightarrow> nat \<Rightarrow> nat \<Rightarrow> nat \<Rightarrow> rat" where
  "fuzzy_validate verse_score query_len verse_len n_common n_query =
     (let ratio = overlap_ratio n_common n_query in
      if verse_score \<ge> 95 then
        (let length_ratio = (if verse_len > 0 then of_nat query_len / of_nat verse_len else (0::rat)) in
         if length_ratio \<ge> 6/10 then verse_score
         else if n_query \<le> 3 then (if ratio < 1 then 0 else verse_score)
         else (if ratio < 6/10 then 0 else verse_score))
      else if n_query \<le> 3 then
        (if ratio < 7/10 then py_int (verse_score * ratio) else verse_score)
      else if verse_score \<ge> 85 then
        (if ratio < 4/10 then py_int (verse_score * ratio * (15/10))
         else if ratio < 6/10 then py_int (verse_score * (85/100))
         else verse_score)
      else
        (if ratio < 5/10 then py_int (verse_score * ratio * (12/10))
         else if ratio < 7/10 then py_int (verse_score * (65/100))
         else verse_score))"

definition fuzzy_score :: "fuzz \<Rightarrow> ustring \<Rightarrow> ustring \<Rightarrow> rat" where
  "fuzzy_score fz nq nv =
     fuzzy_validate (of_int (max (token_set_ratio fz nq nv) (partial_ratio fz nq nv)))
       (length nq) (length nv) (length (common_words nq nv)) (length (query_word_set nq))"

text \<open>The two markers of a placeholder entry (line 267), tested on the raw verse text.\<close>

definition placeholder_prefix :: ustring where
  "placeholder_prefix = [0xBA4, 0xBBF, 0xBB0, 0xBC1, 0xB95, 0xBCD, 0xB95, 0xBC1, 0xBB1, 0xBB3, 0xBCD]"

definition is_placeholder :: "ustring \<Rightarrow> bool" where
  "is_placeholder verse_text \<longleftrightarrow>
     prefix placeholder_prefix verse_text \<or> prefix (0x5B # placeholder_prefix) verse_text"

definition verse_score :: "fuzz \<Rightarrow> ustring \<Rightarrow> rat \<Rightarrow> verse_data \<Rightarrow> rat" where
  "verse_score fz nq kamba_boost vd =
     (let verse_text = get_or (verse vd) [];
          normalized_verse = normalize_text verse_text in
      if \<not> is_placeholder verse_text then
        (if nq = normalized_verse then 100 * kamba_boost
         else if sublist nq normalized_verse \<or> sublist normalized_verse nq
           then containment_score nq normalized_verse
         else fuzzy_score fz nq normalized_verse)
      else 0)"

definition chapter_score :: "fuzz \<Rightarrow> ustring \<Rightarrow> verse_data \<Rightarrow> rat" where
  "chapter_score fz nq vd =
     (let chapter_text = get_or (chapter_name vd) (get_or (kandam vd) []);
          normalized_chapter = normalize_text chapter_text in
      if length nq < 30 then
        (let s = partial_ratio fz nq normalized_chapter in if s < 70 then 0 else of_int s)
      else 0)"

text \<open>The score of a candidate (lines 370--375): the better of the two, set to 0 in strict
  sentence mode when below 95.\<close>

definition candidate_score :: "fuzz \<Rightarrow> ustring \<Rightarrow> rat \<Rightarrow> verse_data \<Rightarrow> rat" where
  "candidate_score fz nq kamba_boost vd =
     (let score = max (verse_score fz nq kamba_boost vd) (chapter_score fz nq vd) in
      if strict_sentence_mode nq \<and> score < 95 then 0 else score)"

section \<open>Search over the books (lines 179--397)\<close>

definition has_kamba_character_book :: "ustring \<Rightarrow> bool" where
  "has_kamba_character_book nq \<longleftrightarrow> list_ex (\<lambda>name. sublist name nq) kamba_characters_book"

definition is_thirukkural_structure :: "ustring \<Rightarrow> bool" where
  "is_thirukkural_structure nq \<longleftrightarrow>
     query_lines nq = 2 \<and> 6 \<le> query_word_count nq \<and> query_word_count nq \<le> 10"

definition is_kamba_structure :: "ustring \<Rightarrow> bool" where
  "is_kamba_structure nq \<longleftrightarrow>
     has_kamba_character_book nq \<or> query_word_count nq > 10 \<or> query_lines nq > 2"

text \<open>The boost of a book and the threshold it leaves behind (lines 224--235). The
  assignment to \<^verbatim>\<open>threshold\<close> is to the variable of the whole function, so the lowered
  value stays for the books searched afterwards.\<close>

definition book_boost :: "book_key \<Rightarrow> ustring \<Rightarrow> rat" where
  "book_boost key nq =
     (if key = thirukkural \<and> is_thirukkural_structure nq then 135/100
      else if key = kamba_ramayanam \<and> is_kamba_structure nq then 130/100
      else if key = thirukkural \<and> is_kamba_structure nq then 75/100
      else if key = kamba_ramayanam \<and> is_thirukkural_structure nq then 75/100
      else 1)"

definition book_threshold :: "book_key \<Rightarrow> ustring \<Rightarrow> int \<Rightarrow> int" where
  "book_threshold key nq threshold =
     (if key = thirukkural \<and> is_thirukkural_structure nq then min threshold 40
      else if key = kamba_ramayanam \<and> is_kamba_structure nq then min threshold 42
      else threshold)"

text \<open>The variables that the loops update.\<close>

record search_state =
  best_match :: "match option"
  best_score :: rat
  threshold :: int

text \<open>The loop over the verses of one book. \<open>Inl\<close> is the \<^verbatim>\<open>return\<close> of the search by
  number, \<open>Inr\<close> the state at the end of the loop.\<close>

fun search_verses ::
  "fuzz \<Rightarrow> ustring \<Rightarrow> book_key \<Rightarrow> ustring \<Rightarrow> rat \<Rightarrow> verse_data list \<Rightarrow> search_state
     \<Rightarrow> match + search_state" where
  "search_verses fz nq key book_name kamba_boost [] st = Inr st"
| "search_verses fz nq key book_name kamba_boost (vd # vds) st =
     (let verse_num = verse_num_str vd in
      if is_number_search nq then
        (if strip nq = verse_num
         then Inl \<lparr>entry = vd, match_score = 100, number_str = verse_num,
                   match_book_key = key, book = book_name, boost_applied = None\<rparr>
         else search_verses fz nq key book_name kamba_boost vds st)
      else
        (let score = candidate_score fz nq kamba_boost vd in
         if score > best_score st \<and> score \<ge> of_int (threshold st)
         then search_verses fz nq key book_name kamba_boost vds
                (st\<lparr>best_score := score,
                    best_match := Some \<lparr>entry = vd, match_score = score, number_str = verse_num,
                      match_book_key = key, book = book_name,
                      boost_applied = Some kamba_boost\<rparr>\<rparr>)
         else search_verses fz nq key book_name kamba_boost vds st))"

text \<open>The loop over \<^verbatim>\<open>books_to_search\<close>: key, database and default title.\<close>

fun search_books ::
  "fuzz \<Rightarrow> ustring \<Rightarrow> (book_key \<times> book_db \<times> ustring) list \<Rightarrow> search_state
     \<Rightarrow> match + search_state" where
  "search_books fz nq [] st = Inr st"
| "search_books fz nq ((key, db, default_title) # books) st =
     (if verses db = [] then search_books fz nq books st
      else
        (let book_name = get_or (title db) default_title;
             kamba_boost = book_boost key nq;
             st1 = st\<lparr>threshold := book_threshold key nq (threshold st)\<rparr> in
         case search_verses fz nq key book_name kamba_boost (verses db) st1 of
           Inl m \<Rightarrow> Inl m
         | Inr st2 \<Rightarrow> search_books fz nq books st2))"

definition thirukkural_title :: ustring where
  "thirukkural_title = [0xBA4, 0xBBF, 0xBB0, 0xBC1, 0xB95, 0xBCD, 0xB95, 0xBC1, 0xBB1, 0xBB3, 0xBCD]"

definition kamba_title :: ustring where
  "kamba_title = [0xB95, 0xBAE, 0xBCD, 0xBAA, 0x20, 0xBB0, 0xBBE, 0xBAE, 0xBBE, 0xBAF, 0xBA3, 0xBAE, 0xBCD]"

definition books_to_search :: "analyzer \<Rightarrow> (book_key \<times> book_db \<times> ustring) list" where
  "books_to_search self =
     [(thirukkural, thirukkural_db self, thirukkural_title),
      (kamba_ramayanam, kamba_db self, kamba_title)]"

definition fuzzy_search_all_books :: "fuzz \<Rightarrow> analyzer \<Rightarrow> ustring \<Rightarrow> match option" where
  "fuzzy_search_all_books fz self query =
     (let normalized_query = normalize_text query in
      case search_books fz normalized_query (books_to_search self)
             \<lparr>best_match = None, best_score = 0, threshold = initial_threshold normalized_query\<rparr> of
        Inl m \<Rightarrow> Some m
      | Inr st \<Rightarrow>
          (case best_match st of
             None \<Rightarrow> None
           | Some m \<Rightarrow>
               if strict_sentence_mode normalized_query \<and> match_score m < 95 then None
               else Some m))"

section \<open>Fallback sentiment (lines 883--955)\<close>

definition positive_words :: "ustring list" where
  "positive_words = [
     [0xBAE, 0xB95, 0xBBF, 0xBB4, 0xBCD, 0xB9A, 0xBCD, 0xB9A, 0xBBF],
     [0xB9A, 0xBA8, 0xBCD, 0xBA4, 0xBCB, 0xBB7, 0xBAE, 0xBCD],
     [0xBAE, 0xB95, 0xBBF, 0xBB4, 0xBCD, 0xBB5, 0xBC1],
     [0xB87, 0xBA9, 0xBCD, 0xBAA, 0xBAE, 0xBCD],
     [0xB85, 0xBA9, 0xBCD, 0xBAA, 0xBC1],
     [0xBAA, 0xBBE, 0xB9A, 0xBAE, 0xBCD],
     [0xBA8, 0xBAE, 0xBCD, 0xBAA, 0xBBF, 0xB95, 0xBCD, 0xB95, 0xBC8],
     [0xBA4, 0xBC8, 0xBB0, 0xBBF, 0xBAF, 0xBAE, 0xBCD],
     [0xB86, 0xBB0, 0xBCD, 0xBB5, 0xBAE, 0xBCD],
     [0xB89, 0xBB1, 0xBCD, 0xB9A, 0xBBE, 0xB95, 0xBAE, 0xBCD],
     [0xB85, 0xBAE, 0xBC8, 0xBA4, 0xBBF],
     [0xBA8, 0xBA9, 0xBCD, 0xBAE, 0xBC8],
     [0xBA8, 0xBB2, 0xBCD, 0xBB2],
     [0xB85, 0xBB4, 0xB95, 0xBBE, 0xBA9],
     [0xB9A, 0xBBF, 0xBB1, 0xBA8, 0xBCD, 0xBA4],
     [0xBAE, 0xBB0, 0xBBF, 0xBAF, 0xBBE, 0xBA4, 0xBC8],
     [0xBA8, 0xBA9, 0xBCD, 0xBB1, 0xBBF],
     [0xBA8, 0xB9F, 0xBCD, 0xBAA, 0xBC1],
     [0xB9A, 0xBBF, 0xBB0, 0xBBF, 0xBAA, 0xBCD, 0xBAA, 0xBC1],
     [0xBAE, 0xB95, 0xBBF, 0xBB4, 0xBCD],
     [0xB9A, 0xBA8, 0xBCD, 0xBA4, 0xBCB, 0xBB7],
     [0xB87, 0xBA9, 0xBBF, 0xBAE, 0xBC8],
     [0xBB5, 0xBC6, 0xBB1, 0xBCD, 0xBB1, 0xBBF],
     [0xBB5, 0xBB3, 0xBB0, 0xBCD, 0xB9A, 0xBCD, 0xB9A, 0xBBF],
     [0xB86, 0xBB0, 0xBCB, 0xB95, 0xBCD, 0xB95, 0xBBF, 0xBAF, 0xBAE, 0xBCD],
     [0xBA8, 0xBB2, 0xBAE, 0xBCD],
     [0xB9A, 0xBC6, 0xBB2, 0xBCD, 0xBB5, 0xBAE, 0xBCD],
     [0xBAA, 0xBC1, 0xB95, 0xBB4, 0xBCD],
     [0xBAA, 0xBC6, 0xBB0, 0xBC1, 0xBAE, 0xBC8],
     [0xB86, 0xBA9, 0xBA8, 0xBCD, 0xBA4, 0xBAE, 0xBCD],
     [0xBAE, 0xB95, 0xBBF, 0xBB4, 0xBCD, 0xBA8, 0xBCD, 0xBA4, 0xBC1],
     [0xB9A, 0xBA8, 0xBCD, 0xBA4, 0xBCB, 0xBB7, 0xBAE, 0xBBE, 0xB95],
     [0xBA8, 0xBA9, 0xBCD, 0xBB1, 0xBBE, 0xB95],
     [0xB85, 0xBB0, 0xBC1, 0xBAE, 0xBC8],
     [0xB9A, 0xBBF, 0xBB1, 0xBAA, 0xBCD, 0xBAA, 0xBC1],
     [0xB85, 0xBB1, 0xBCD, 0xBAA, 0xBC1, 0xBA4, 0xBAE, 0xBCD],
     [0xB87, 0xBA9, 0xBBF, 0xBAF],
     [0xBA8, 0xBB2, 0xBCD, 0xBB5, 0xBBE, 0xBB4, 0xBCD, 0xBB5, 0xBC1],
     [0xB9A, 0xBC1, 0xB95, 0xBAE, 0xBCD],
     [0xB87, 0xBA9, 0xBCD],
     [0xBAA, 0xBAF, 0xBA9, 0xBCD],
     [0xB8A, 0xB95, 0xBCD, 0xB95, 0xBAE, 0xBCD],
     [0xB86, 0xBA4, 0xBB0, 0xBB5, 0xBC1],
     [0xBAA, 0xBBE, 0xBB0, 0xBBE, 0xB9F, 0xBCD, 0xB9F, 0xBC1],
     [0xBB5, 0xBBE, 0xBB4, 0xBCD, 0xBA4, 0xBCD, 0xBA4, 0xBC1],
     [0xBAA, 0xBCB, 0xBB1, 0xBCD, 0xBB1, 0xBC1]]"

definition negative_words :: "ustring list" where
  "negative_words = [
     [0xBA4, 0xBC1, 0xB95, 0xBCD, 0xB95, 0xBAE, 0xBCD],
     [0xB95, 0xBB5, 0xBB2, 0xBC8],
     [0xBAA, 0xBAF, 0xBAE, 0xBCD],
     [0xB95, 0xBCB, 0xBAA, 0xBAE, 0xBCD],
     [0xBB5, 0xBB0, 0xBC1, 0xBA4, 0xBCD, 0xBA4, 0xBAE, 0xBCD],
     [0xB8F, 0xBAE, 0xBBE, 0xBB1, 0xBCD, 0xBB1, 0xBAE, 0xBCD],
     [0xBB5, 0xBC6, 0xBB1, 0xBC1, 0xBAA, 0xBCD, 0xBAA, 0xBC1],
     [0xBAA, 0xBCA, 0xBB1, 0xBBE, 0xBAE, 0xBC8],
     [0xB9A, 0xBCB, 0xBB0, 0xBCD, 0xBB5, 0xBC1],
     [0xB85, 0xBB2, 0xBC1, 0xBAA, 0xBCD, 0xBAA, 0xBC1],
     [0xBB5, 0xBC6, 0xB9F, 0xBCD, 0xB95, 0xBAE, 0xBCD],
     [0xBA4, 0xBC1, 0xBA9, 0xBCD, 0xBAA, 0xBAE, 0xBCD],
     [0xBAE, 0xBA9, 0xBAA, 0xBBE, 0xBB0, 0xBAE, 0xBCD],
     [0xBAE, 0xBA9, 0xB9A, 0xBC1, 0xBAE, 0xBC8],
     [0xBAE, 0xBA9, 0xB85, 0xBB4, 0xBC1, 0xBA4, 0xBCD, 0xBA4, 0xBAE, 0xBCD],
     [0xBA4, 0xBC0, 0xBAE, 0xBC8],
     [0xB95, 0xBC6, 0xB9F, 0xBCD, 0xB9F],
     [0xBAE, 0xBCB, 0xB9A, 0xBAE, 0xBBE, 0xB95],
     [0xBB5, 0xBB2, 0xBBF],
     [0xBA8, 0xBCB, 0xBAF, 0xBCD],
     [0xBA4, 0xBCB, 0xBB2, 0xBCD, 0xBB5, 0xBBF],
     [0xB87, 0xBB4, 0xBAA, 0xBCD, 0xBAA, 0xBC1],
     [0xB95, 0xBB7, 0xBCD, 0xB9F, 0xBAE, 0xBCD],
     [0xB9A, 0xBBF, 0xBB0, 0xBAE, 0xBAE, 0xBCD],
     [0xB85, 0xBB4, 0xBC1, 0xB95, 0xBC8],
     [0xB95, 0xBA3, 0xBCD, 0xBA3, 0xBC0, 0xBB0, 0xBCD],
     [0xB95, 0xB9A, 0xBAA, 0xBCD, 0xBAA, 0xBC1],
     [0xBB5, 0xBC7, 0xBA4, 0xBA9, 0xBC8],
     [0xBB5, 0xBB0, 0xBC1, 0xBA8, 0xBCD, 0xBA4, 0xBBF],
     [0xB95, 0xBCB, 0xBAA, 0xBAE, 0xBBE, 0xB95],
     [0xBAA, 0xBBE, 0xBB0, 0xBAE, 0xBCD],
     [0xB9A, 0xBC1, 0xBAE, 0xBC8],
     [0xBAA, 0xBB3, 0xBC1],
     [0xBAE, 0xBA9, 0x20, 0xB87, 0xBB1, 0xBC1, 0xB95, 0xBCD, 0xB95, 0xBAE, 0xBCD],
     [0xB85, 0xB9A, 0xBCD, 0xB9A, 0xBAE, 0xBCD],
     [0xBAA, 0xBC0, 0xBA4, 0xBBF],
     [0xBB5, 0xBC6, 0xBB1, 0xBC1, 0xBAA, 0xBCD, 0xBAA, 0xBC1],
     [0xBB5, 0xBC6, 0xBB1, 0xBC1, 0xB95, 0xBCD],
     [0xBAA, 0xB95, 0xBC8],
     [0xB8E, 0xBA4, 0xBBF, 0xBB0, 0xBCD],
     [0xB95, 0xBC6, 0xB9F, 0xBC1],
     [0xB85, 0xBB4, 0xBBF],
     [0xBA8, 0xBB7, 0xBCD, 0xB9F, 0xBAE, 0xBCD],
     [0xBA4, 0xBA3, 0xBCD, 0xB9F, 0xBA9, 0xBC8],
     [0xB95, 0xBC1, 0xBB1, 0xBCD, 0xBB1, 0xBAE, 0xBCD],
     [0xBAA, 0xBBE, 0xBB5, 0xBAE, 0xBCD],
     [0xBA4, 0xBB5, 0xBB1, 0xBC1]]"

definition neutral_words :: "ustring list" where
  "neutral_words = [
     [0xB9A, 0xBC6, 0xBAF, 0xBCD],
     [0xBAA, 0xBCB],
     [0xBB5, 0xBBE],
     [0xB87, 0xBB0, 0xBC1],
     [0xBAA, 0xBBE, 0xBB0, 0xBCD],
     [0xB95, 0xBC7, 0xBB3, 0xBCD],
     [0xB9A, 0xBCA, 0xBB2, 0xBCD],
     [0xB8E, 0xBB4, 0xBC1, 0xBA4, 0xBC1],
     [0xBAA, 0xB9F, 0xBBF],
     [0xB9A, 0xBBE, 0xBAA, 0xBCD, 0xBAA, 0xBBF, 0xB9F, 0xBC1],
     [0xB95, 0xBC1, 0xB9F, 0xBBF],
     [0xBA4, 0xBC2, 0xB99, 0xBCD, 0xB95, 0xBC1],
     [0xBA8, 0xB9F],
     [0xB93, 0xB9F, 0xBC1],
     [0xB87, 0xBA9, 0xBCD, 0xBB1, 0xBC1],
     [0xBA8, 0xBC7, 0xBB1, 0xBCD, 0xBB1, 0xBC1],
     [0xBA8, 0xBBE, 0xBB3, 0xBC8],
     [0xB87, 0xBAA, 0xBCD, 0xBAA, 0xBCB, 0xBA4, 0xBC1],
     [0xBAA, 0xBBF, 0xBB1, 0xB95, 0xBC1],
     [0xBAE, 0xBC1, 0xBA9, 0xBCD, 0xBAA, 0xBC1]]"

text \<open>The dictionary that \<^verbatim>\<open>_analyze_sentiment\<close> returns, without the emoji.\<close>

datatype sentiment_label = Neutral | Positive | Negative | Mixed

record sentiment =
  label :: sentiment_label
  score :: rat
  n_positive_words :: nat
  n_negative_words :: nat
  n_neutral_words :: nat

text \<open>\<^verbatim>\<open>sum(1 for word in words if any(k in word for k in keywords))\<close>.\<close>

definition count_matching :: "ustring list \<Rightarrow> ustring list \<Rightarrow> nat" where
  "count_matching keywords words =
     length (filter (\<lambda>word. list_ex (\<lambda>k. sublist k word) keywords) words)"

text \<open>\<^verbatim>\<open>round(x, 2)\<close>: to the nearest hundredth, a tie to the even one. The code rounds
  a float, which at a tie of the exact value can give the other neighbour (1.07 for 1.08
  at three positive words and one negative); the values 0.5, 1.2 and -0.2 are not ties.\<close>

definition round2 :: "rat \<Rightarrow> rat" where
  "round2 x =
     (let y = x * 100; f = \<lfloor>y\<rfloor>; r = y - of_int f in
      (if r < 1/2 then of_int f
       else if r > 1/2 then of_int (f + 1)
       else if even f then of_int f else of_int (f + 1)) / 100)"

definition analyze_sentiment :: "ustring \<Rightarrow> sentiment" where
  "analyze_sentiment text =
     (let words = str_split text;
          positive_count = count_matching positive_words words;
          negative_count = count_matching negative_words words;
          neutral_count = count_matching neutral_words words;
          total_sentiment_words = positive_count + negative_count;
          (sentiment, score) =
            (if total_sentiment_words = 0 then (Neutral, 5/10)
             else if positive_count > negative_count
               then (Positive, 7/10 + of_nat positive_count / of_nat (total_sentiment_words * 2))
             else if negative_count > positive_count
               then (Negative, 3/10 - of_nat negative_count / of_nat (total_sentiment_words * 2))
             else (Mixed, 5/10)) in
      \<lparr>label = sentiment, score = round2 score, n_positive_words = positive_count,
        n_negative_words = negative_count, n_neutral_words = neutral_count\<rparr>)"

section \<open>The query interface (lines 399--476)\<close>

text \<open>The four dictionaries \<^verbatim>\<open>analyze\<close> can return: the two markers for text without
  content, a match, and the generic analysis of text that is no verse. Of the generic
  analysis the sentiment block is kept; the word-by-word gloss comes from a dictionary of
  the fallback analyzer and is not modelled. Of a match the fields below are kept, the
  optional fields copied from the entry being those of \<^const>\<open>entry\<close>.\<close>

record match_result =
  source :: book_key
  result_book :: ustring
  result_section :: ustring
  result_chapter :: ustring
  number :: ustring
  result_verse :: ustring
  result_meaning :: ustring
  result_summary :: ustring
  confidence :: rat
  result_entry :: verse_data

datatype analysis =
    Unknown
  | Invalid
  | Found match_result
  | Random_text sentiment

definition found :: "analysis \<Rightarrow> bool" where
  "found r = (case r of Found _ \<Rightarrow> True | _ \<Rightarrow> False)"

definition generate_generic_analysis :: "ustring \<Rightarrow> analysis" where
  "generate_generic_analysis text = Random_text (analyze_sentiment text)"

definition analyze :: "fuzz \<Rightarrow> analyzer \<Rightarrow> ustring \<Rightarrow> analysis" where
  "analyze fz self text =
     (if text = [] \<or> length (strip text) = 0 then Unknown
      else
        (let cleaned_text = preprocess_for_analysis text in
         if cleaned_text = [] then Invalid
         else
           (case fuzzy_search_all_books fz self cleaned_text of
              Some m \<Rightarrow>
                Found \<lparr>source = match_book_key m,
                       result_book = get_or (tamil_book_name (entry m)) (book m),
                       result_section = get_or (section_name (entry m)) [],
                       result_chapter = get_or (chapter_name (entry m)) [],
                       number = number_str m,
                       result_verse = get_or (verse (entry m)) [],
                       result_meaning = get_or (meaning (entry m)) [],
                       result_summary = get_or (summary (entry m)) [],
                       confidence = match_score m / 100,
                       result_entry = entry m\<rparr>
            | None \<Rightarrow> generate_generic_analysis cleaned_text)))"

section \<open>Notions used in the statements\<close>

text \<open>The match that the search by number returns.\<close>

definition number_match :: "ustring \<Rightarrow> book_key \<Rightarrow> ustring \<Rightarrow> verse_data \<Rightarrow> match" where
  "number_match nq key book_name vd =
     \<lparr>entry = vd, match_score = 100, number_str = verse_num_str vd,
      match_book_key = key, book = book_name, boost_applied = None\<rparr>"

text \<open>The state in which the loop over the books starts, and the invariant of the loops:
  the recorded match carries the best score, which is positive once there is a match.\<close>

definition init_state :: "ustring \<Rightarrow> search_state" where
  "init_state nq = \<lparr>best_match = None, best_score = 0, threshold = initial_threshold nq\<rparr>"

definition state_ok :: "search_state \<Rightarrow> bool" where
  "state_ok st \<longleftrightarrow>
     (case best_match st of None \<Rightarrow> best_score st = 0
      | Some m \<Rightarrow> match_score m = best_score st \<and> 0 < best_score st)"

definition is_tamil_digit :: "nat \<Rightarrow> bool" where
  "is_tamil_digit c \<longleftrightarrow> 0xBE6 \<le> c \<and> c \<le> 0xBEF"

text \<open>Two entries, and two databases, that differ in the meaning field at most.\<close>

definition same_but_meaning :: "verse_data \<Rightarrow> verse_data \<Rightarrow> bool" where
  "same_but_meaning vd vd' \<longleftrightarrow> vd' = vd\<lparr>meaning := meaning vd'\<rparr>"

definition same_but_meanings :: "book_db \<Rightarrow> book_db \<Rightarrow> bool" where
  "same_but_meanings db db' \<longleftrightarrow>
     title db' = title db \<and> list_all2 same_but_meaning (verses db) (verses db')"

definition match_rel :: "match \<Rightarrow> match \<Rightarrow> bool" where
  "match_rel m m' \<longleftrightarrow>
     match_score m' = match_score m \<and> number_str m' = number_str m \<and>
     match_book_key m' = match_book_key m \<and> book m' = book m \<and>
     boost_applied m' = boost_applied m \<and> same_but_meaning (entry m) (entry m')"

definition state_rel :: "search_state \<Rightarrow> search_state \<Rightarrow> bool" where
  "state_rel st st' \<longleftrightarrow>
     rel_option match_rel (best_match st) (best_match st') \<and>
     best_score st' = best_score st \<and> threshold st' = threshold st"

text \<open>What a caller can tell of the matching decision: the book, the number and the text
  of the selected verse, and the confidence.\<close>

definition decision :: "analysis \<Rightarrow> (book_key \<times> ustring \<times> ustring \<times> rat) option" where
  "decision r =
     (case r of Found m \<Rightarrow> Some (source m, number m, result_verse m, confidence m)
      | _ \<Rightarrow> None)"

section \<open>Example data\<close>

text \<open>A similarity measure that always answers 0, for inputs on which the search
  consults neither measure, and one that always answers 95.\<close>

definition no_fuzz :: fuzz where
  "no_fuzz = \<lparr>token_set_ratio = (\<lambda>a b. 0), partial_ratio = (\<lambda>a b. 0)\<rparr>"

definition fuzz95 :: fuzz where
  "fuzz95 = \<lparr>token_set_ratio = (\<lambda>a b. 95), partial_ratio = (\<lambda>a b. 95)\<rparr>"

definition empty_entry :: verse_data where
  "empty_entry = \<lparr>verse_number = None, verse = None, meaning = None, chapter_name = None,
     kandam = None, section_name = None, summary = None, tamil_book_name = None,
     english_meaning = None, theme = None, moral = None, author = None, characters = None\<rparr>"

definition empty_db :: book_db where
  "empty_db = \<lparr>title = None, verses = []\<rparr>"

text \<open>An entry with a number and a verse text only.\<close>

definition plain_entry :: "int \<Rightarrow> ustring \<Rightarrow> verse_data" where
  "plain_entry n t = empty_entry\<lparr>verse_number := Some (JInt n), verse := Some t\<rparr>"

text \<open>A line of five words, 46 characters, that begins with the first name of both
  character lists.\<close>

definition rama_line :: ustring where
  "rama_line =
     [0xB87, 0xBB0, 0xBBE, 0xBAE, 0xBA9, 0xBCD, 0x20,
      0xB95, 0xBBE, 0xB9F, 0xBCD, 0xB9F, 0xBC1, 0xB95, 0xBCD, 0xB95, 0xBC1, 0xB9A, 0xBCD, 0x20,
      0xB9A, 0xBC6, 0xBA9, 0xBCD, 0xBB1, 0xBBE, 0xBA9, 0xBCD, 0x20,
      0xB8E, 0xBA9, 0xBCD, 0xBB1, 0xBC1, 0x20,
      0xB9A, 0xBCA, 0xBA9, 0xBCD, 0xBA9, 0xBBE, 0xBB0, 0xBCD, 0xB95, 0xBB3, 0xBCD]"

text \<open>The line followed by one more word (52 characters), and by four more words
  (76 characters).\<close>

definition rama_verse_short :: ustring where
  "rama_verse_short = rama_line @ [0x20, 0xB85, 0xBA9, 0xBCD, 0xBB1, 0xBC1]"

definition rama_verse_long :: ustring where
  "rama_verse_long = rama_line @
     [0x20, 0xB8E, 0xBA9, 0xBCD, 0xBB1, 0xBC1, 0x20, 0xB85, 0xBB5, 0xBA9, 0xBCD, 0x20,
      0xBAE, 0xB95, 0xBBF, 0xBB4, 0xBCD, 0xBA8, 0xBCD, 0xBA4, 0xBC1, 0x20,
      0xB9A, 0xBCA, 0xBA9, 0xBCD, 0xBA9, 0xBBE, 0xBA9, 0xBCD]"

text \<open>The name alone, and the name with one more word.\<close>

definition rama_name :: ustring where
  "rama_name = [0xB87, 0xBB0, 0xBBE, 0xBAE, 0xBA9, 0xBCD]"

definition rama_came :: ustring where
  "rama_came = rama_name @ [0x20, 0xBB5, 0xBA8, 0xBCD, 0xBA4, 0xBBE, 0xBA9, 0xBCD]"

text \<open>A modern sentence of six words, 39 characters: its last word has a verb ending of
  the past tense, its second word is the twelfth name of the list of line 192 and no name
  of the list of line 140 occurs in it. The verse is the sentence and one more word
  (47 characters).\<close>

definition vali_sentence :: ustring where
  "vali_sentence =
     [0xBA8, 0xBBE, 0xBA9, 0xBCD, 0x20, 0xBB5, 0xBBE, 0xBB2, 0xBBF, 0x20,
      0xBAA, 0xBB1, 0xBCD, 0xBB1, 0xBBF, 0xBAF, 0x20, 0xB95, 0xBA4, 0xBC8, 0xBAF, 0xBC8, 0x20,
      0xBA8, 0xBC7, 0xBB1, 0xBCD, 0xBB1, 0xBC1, 0x20,
      0xBAA, 0xB9F, 0xBBF, 0xBA4, 0xBCD, 0xBA4, 0xBC7, 0xBA9, 0xBCD]"

definition vali_verse :: ustring where
  "vali_verse = vali_sentence @ [0x20, 0xB8E, 0xBA9, 0xBCD, 0xBB1, 0xBBE, 0xBA9, 0xBCD]"

text \<open>A query of four one-letter words and two verses of such words.\<close>

definition letters_query :: ustring where
  "letters_query = [0xB85, 0x20, 0xB86, 0x20, 0xB87, 0x20, 0xB88]"

definition letters_verse_a :: ustring where
  "letters_verse_a = [0xB85, 0x20, 0xB89, 0x20, 0xB8A, 0x20, 0xB8E, 0x20, 0xB8F]"

definition letters_verse_b :: ustring where
  "letters_verse_b =
     [0xB85, 0x20, 0xB86, 0x20, 0xB89, 0x20, 0xB8A, 0x20, 0xB8E, 0x20, 0xB8F, 0x20, 0xB90]"

text \<open>A word of the negative list, a word of the positive list and the number 1 in ASCII
  digits.\<close>

definition pain_word :: ustring where
  "pain_word = [0xBB5, 0xBB2, 0xBBF]"

definition thanks_word :: ustring where
  "thanks_word = [0xBA8, 0xBA9, 0xBCD, 0xBB1, 0xBBF]"

definition ascii_one :: ustring where
  "ascii_one = [0x31]"

text \<open>A query of two lines, three words each, 43 characters: the last word has a verb
  ending of the past tense and no name of either list occurs in it. The same words on one
  line, and a verse of 63 characters that begins with them.\<close>

definition couplet_line1 :: ustring where
  "couplet_line1 =
     [0xBA8, 0xBBE, 0xBA9, 0xBCD, 0x20, 0xBA8, 0xBC7, 0xBB1, 0xBCD, 0xBB1, 0xBC1, 0x20,
      0xB95, 0xBA4, 0xBC8, 0xBAF, 0xBC8]"

definition couplet_line2 :: ustring where
  "couplet_line2 =
     [0xBAA, 0xBB1, 0xBCD, 0xBB1, 0xBBF, 0xBAF, 0x20,
      0xBAE, 0xBBE, 0xBB2, 0xBC8, 0xBAF, 0xBBF, 0xBB2, 0xBCD, 0x20,
      0xBAA, 0xB9F, 0xBBF, 0xBA4, 0xBCD, 0xBA4, 0xBC7, 0xBA9, 0xBCD]"

definition two_line_query :: ustring where
  "two_line_query = couplet_line1 @ [0xA] @ couplet_line2"

definition couplet_joined :: ustring where
  "couplet_joined = couplet_line1 @ [0x20] @ couplet_line2"

definition couplet_verse :: ustring where
  "couplet_verse = couplet_joined @
     [0x20, 0xB8E, 0xBA9, 0xBCD, 0xBB1, 0xBC1, 0x20, 0xB85, 0xBB5, 0xBA9, 0xBCD, 0x20,
      0xB9A, 0xBCA, 0xBA9, 0xBCD, 0xBA9, 0xBBE, 0xBA9, 0xBCD]"

text \<open>Analyzers over small corpora.\<close>

definition thirukkural_only :: analyzer where
  "thirukkural_only =
     \<lparr>thirukkural_db = \<lparr>title = None, verses = [plain_entry 1 rama_line]\<rparr>,
      kamba_db = empty_db\<rparr>"

definition thirukkural_glossed :: analyzer where
  "thirukkural_glossed =
     \<lparr>thirukkural_db =
        \<lparr>title = None, verses = [(plain_entry 1 rama_line)\<lparr>meaning := Some pain_word\<rparr>]\<rparr>,
      kamba_db = empty_db\<rparr>"

definition kamba_only :: analyzer where
  "kamba_only =
     \<lparr>thirukkural_db = empty_db,
      kamba_db = \<lparr>title = None, verses = [plain_entry 1 rama_line]\<rparr>\<rparr>"

definition two_books :: analyzer where
  "two_books =
     \<lparr>thirukkural_db = \<lparr>title = None, verses = [plain_entry 1 rama_verse_short]\<rparr>,
      kamba_db = \<lparr>title = None, verses = [plain_entry 2 rama_verse_long]\<rparr>\<rparr>"

definition kamba_vali :: analyzer where
  "kamba_vali =
     \<lparr>thirukkural_db = empty_db,
      kamba_db = \<lparr>title = None, verses = [plain_entry 7 vali_verse]\<rparr>\<rparr>"

definition couplet_book :: analyzer where
  "couplet_book =
     \<lparr>thirukkural_db = \<lparr>title = None, verses = [plain_entry 3 couplet_verse]\<rparr>,
      kamba_db = empty_db\<rparr>"

section \<open>Lemmas\<close>

subsection \<open>Truncation and overlap ratio\<close>

lemma py_int_mono: "x \<le> y \<Longrightarrow> py_int x \<le> py_int y"
proof -
  assume xy: "x \<le> y"
  show ?thesis
  proof (cases "0 \<le> x")
    case True
    then show ?thesis using xy unfolding py_int_def by (simp add: floor_mono)
  next
    case False
    then have "\<lceil>x\<rceil> \<le> 0" by (simp add: ceiling_le_zero)
    show ?thesis
    proof (cases "0 \<le> y")
      case True
      then have "0 \<le> \<lfloor>y\<rfloor>" by simp
      with \<open>\<lceil>x\<rceil> \<le> 0\<close> have "\<lceil>x\<rceil> \<le> \<lfloor>y\<rfloor>" by linarith
      then show ?thesis using False True unfolding py_int_def by simp
    next
      case y: False
      then show ?thesis using False xy unfolding py_int_def by (simp add: ceiling_mono)
    qed
  qed
qed

lemma py_int_le: "0 \<le> x \<Longrightarrow> py_int x \<le> x"
  unfolding py_int_def by simp

lemma overlap_ratio_mono: "k1 \<le> k2 \<Longrightarrow> overlap_ratio k1 n \<le> overlap_ratio k2 n"
  unfolding overlap_ratio_def by (simp add: divide_right_mono)

lemma overlap_ratio_nonneg: "0 \<le> overlap_ratio k n"
  unfolding overlap_ratio_def by simp

lemma fuzzy_validate_mono:
  assumes "0 \<le> s" "k1 \<le> k2"
  shows "fuzzy_validate s ql vl k1 n \<le> fuzzy_validate s ql vl k2 n"
proof -
  let ?r1 = "overlap_ratio k1 n" and ?r2 = "overlap_ratio k2 n"
  have r: "?r1 \<le> ?r2" using assms(2) by (rule overlap_ratio_mono)
  have r0: "0 \<le> ?r1" by (rule overlap_ratio_nonneg)
  have m1: "py_int (s * ?r1) \<le> py_int (s * ?r2)"
    using r assms(1) by (intro py_int_mono mult_left_mono)
  have m2: "py_int (s * ?r1 * (15/10)) \<le> py_int (s * ?r2 * (15/10))"
    using r assms(1) by (intro py_int_mono mult_right_mono mult_left_mono) auto
  have m3: "py_int (s * ?r1 * (12/10)) \<le> py_int (s * ?r2 * (12/10))"
    using r assms(1) by (intro py_int_mono mult_right_mono mult_left_mono) auto
  have b1: "?r1 < 7/10 \<Longrightarrow> py_int (s * ?r1) \<le> s"
  proof -
    assume "?r1 < 7/10"
    then have "s * ?r1 \<le> s * 1" using assms(1) by (intro mult_left_mono) auto
    moreover have "py_int (s * ?r1) \<le> s * ?r1" using assms(1) r0 by (intro py_int_le) auto
    ultimately show ?thesis by simp
  qed
  have b2: "?r1 < 4/10 \<Longrightarrow> py_int (s * ?r1 * (15/10)) \<le> py_int (s * (85/100))"
  proof -
    assume "?r1 < 4/10"
    then have "?r1 * (15/10) \<le> 85/100" by simp
    then have "s * (?r1 * (15/10)) \<le> s * (85/100)" using assms(1) by (rule mult_left_mono)
    then show ?thesis by (intro py_int_mono) (simp add: mult.assoc)
  qed
  have b3: "py_int (s * (85/100)) \<le> s"
  proof -
    have "s * (85/100) \<le> s * 1" using assms(1) by (intro mult_left_mono) auto
    moreover have "py_int (s * (85/100)) \<le> s * (85/100)" using assms(1) by (intro py_int_le) auto
    ultimately show ?thesis by simp
  qed
  have b4: "?r1 < 5/10 \<Longrightarrow> py_int (s * ?r1 * (12/10)) \<le> py_int (s * (65/100))"
  proof -
    assume "?r1 < 5/10"
    then have "?r1 * (12/10) \<le> 65/100" by simp
    then have "s * (?r1 * (12/10)) \<le> s * (65/100)" using assms(1) by (rule mult_left_mono)
    then show ?thesis by (intro py_int_mono) (simp add: mult.assoc)
  qed
  have b5: "py_int (s * (65/100)) \<le> s"
  proof -
    have "s * (65/100) \<le> s * 1" using assms(1) by (intro mult_left_mono) auto
    moreover have "py_int (s * (65/100)) \<le> s * (65/100)" using assms(1) by (intro py_int_le) auto
    ultimately show ?thesis by simp
  qed
  show ?thesis
    unfolding fuzzy_validate_def Let_def
    using r m1 m2 m3 b1 b2 b3 b4 b5 assms(1) order_trans[OF b2 b3] order_trans[OF b4 b5]
    by (auto simp: not_less)
qed

subsection \<open>Normalised text\<close>

text \<open>Normalised text consists of Tamil characters and single spaces: it has one line, so
  the two-line structure of lines 207--210 never holds for it.\<close>

lemma tamil_not_space: "is_tamil c \<Longrightarrow> \<not> isspace c"
  by (auto simp: is_tamil_def isspace_def)

lemma dropWhile_keeps: "c \<in> set s \<Longrightarrow> \<not> P c \<Longrightarrow> c \<in> set (dropWhile P s)"
  by (induction s) auto

lemma strip_keeps: "c \<in> set s \<Longrightarrow> \<not> isspace c \<Longrightarrow> c \<in> set (strip s)"
  unfolding strip_def by (simp add: dropWhile_keeps)

lemma strip_subset: "set (strip s) \<subseteq> set s"
proof
  fix c assume "c \<in> set (strip s)"
  then have "c \<in> set (dropWhile isspace (rev (dropWhile isspace s)))"
    unfolding strip_def by simp
  then have "c \<in> set (rev (dropWhile isspace s))" by (rule set_dropWhileD)
  then have "c \<in> set (dropWhile isspace s)" by simp
  then show "c \<in> set s" by (rule set_dropWhileD)
qed

lemma sub_ws_keeps: "c \<in> set s \<Longrightarrow> \<not> isspace c \<Longrightarrow> c \<in> set (sub_ws b s)"
  by (induction s arbitrary: b) auto

lemma sub_ws_subset: "set (sub_ws b s) \<subseteq> insert 0x20 {c \<in> set s. \<not> isspace c}"
  by (induction s arbitrary: b) auto

lemma normalize_text_chars: "c \<in> set (normalize_text t) \<Longrightarrow> is_tamil c \<or> c = 0x20"
proof -
  assume "c \<in> set (normalize_text t)"
  then have "c \<in> set (sub_ws False (filter (\<lambda>c. is_tamil c \<or> isspace c) t))"
    unfolding normalize_text_def using strip_subset by blast
  then have "c = 0x20 \<or> (c \<in> set (filter (\<lambda>c. is_tamil c \<or> isspace c) t) \<and> \<not> isspace c)"
    using sub_ws_subset by fastforce
  then show ?thesis by auto
qed

lemma query_lines_normalized: "query_lines (normalize_text t) = 1"
proof -
  have "0xA \<notin> set (normalize_text t)"
    using normalize_text_chars[of "0xA" t] by (auto simp: is_tamil_def)
  then show ?thesis unfolding query_lines_def by (simp add: count_list_0_iff)
qed

lemma not_thirukkural_structure_normalized: "\<not> is_thirukkural_structure (normalize_text t)"
  by (simp add: is_thirukkural_structure_def query_lines_normalized)

lemma not_looks_like_thirukkural_normalized: "\<not> looks_like_thirukkural (normalize_text q)"
  by (simp add: looks_like_thirukkural_def query_lines_normalized)

lemma strict_mode_normalized:
  "strict_sentence_mode (normalize_text q) \<longleftrightarrow>
     \<not> looks_like_kamba (normalize_text q) \<and>
     ((is_modern_sentence (normalize_text q) \<and> query_word_count (normalize_text q) \<ge> 2) \<or>
      is_short_query (normalize_text q))"
  by (simp add: strict_sentence_mode_def looks_like_verse_def
      not_looks_like_thirukkural_normalized)

lemma valid_strip_nonempty: "is_valid_tamil t \<Longrightarrow> strip t \<noteq> []"
proof -
  assume "is_valid_tamil t"
  then obtain c where "c \<in> set t" "is_tamil c"
    unfolding is_valid_tamil_def by (auto simp: list_ex_iff)
  then have "c \<in> set (strip t)" by (simp add: strip_keeps tamil_not_space)
  then show ?thesis by auto
qed

lemma valid_clean_text: "is_valid_tamil t \<Longrightarrow> is_valid_tamil (clean_text t)"
proof -
  assume v: "is_valid_tamil t"
  then obtain c where c: "c \<in> set t" "is_tamil c"
    unfolding is_valid_tamil_def by (auto simp: list_ex_iff)
  then have "t \<noteq> []" by auto
  moreover have "c \<in> set (strip (sub_ws False t))"
    using c by (simp add: strip_keeps sub_ws_keeps tamil_not_space)
  ultimately show ?thesis using c(2) unfolding clean_text_def is_valid_tamil_def
    by (auto simp: list_ex_iff)
qed

lemma preprocess_valid:
  "is_valid_tamil t \<Longrightarrow> preprocess_for_analysis t = clean_text t \<and> clean_text t \<noteq> []"
  using valid_clean_text[of t]
  by (auto simp: preprocess_for_analysis_def Let_def is_valid_tamil_def)

lemma analyze_valid:
  "is_valid_tamil t \<Longrightarrow>
   analyze fz self t =
     (case fuzzy_search_all_books fz self (clean_text t) of
        Some m \<Rightarrow>
          Found \<lparr>source = match_book_key m,
                 result_book = get_or (tamil_book_name (entry m)) (book m),
                 result_section = get_or (section_name (entry m)) [],
                 result_chapter = get_or (chapter_name (entry m)) [],
                 number = number_str m,
                 result_verse = get_or (verse (entry m)) [],
                 result_meaning = get_or (meaning (entry m)) [],
                 result_summary = get_or (summary (entry m)) [],
                 confidence = match_score m / 100,
                 result_entry = entry m\<rparr>
      | None \<Rightarrow> generate_generic_analysis (clean_text t))"
proof -
  assume v: "is_valid_tamil t"
  then have "t \<noteq> []" unfolding is_valid_tamil_def by auto
  moreover have "strip t \<noteq> []" using v by (rule valid_strip_nonempty)
  ultimately show ?thesis using preprocess_valid[OF v]
    by (simp add: analyze_def Let_def)
qed

subsection \<open>The search by number\<close>

lemma search_verses_number:
  "is_number_search nq \<Longrightarrow>
   search_verses fz nq key bn kb vds st =
     (case find (\<lambda>vd. verse_num_str vd = strip nq) vds of
        Some vd \<Rightarrow> Inl (number_match nq key bn vd)
      | None \<Rightarrow> Inr st)"
  by (induction vds) (auto simp: Let_def number_match_def)

lemma fuzzy_search_number:
  assumes "is_number_search (normalize_text q)"
  shows "fuzzy_search_all_books fz self q =
     (let nq = normalize_text q; p = (\<lambda>vd. verse_num_str vd = strip nq) in
      case find p (verses (thirukkural_db self)) of
        Some vd \<Rightarrow> Some (number_match nq thirukkural
                     (get_or (title (thirukkural_db self)) thirukkural_title) vd)
      | None \<Rightarrow>
         (case find p (verses (kamba_db self)) of
            Some vd \<Rightarrow> Some (number_match nq kamba_ramayanam
                     (get_or (title (kamba_db self)) kamba_title) vd)
          | None \<Rightarrow> None))"
  using assms
  by (auto simp: fuzzy_search_all_books_def books_to_search_def Let_def search_verses_number
      split: option.splits)

subsection \<open>The loop over the verses\<close>

text \<open>Outside the search by number the loop runs to its end, keeps the threshold, never lowers
  the best score, keeps the invariant, and ends with a best score that is at least the score
  of every candidate that reaches the threshold.\<close>

lemma search_verses_Inr:
  "\<not> is_number_search nq \<Longrightarrow> \<exists>st'. search_verses fz nq key bn kb vds st = Inr st'"
  by (induction vds arbitrary: st) (auto simp: Let_def)

lemma search_verses_threshold:
  "search_verses fz nq key bn kb vds st = Inr st' \<Longrightarrow> threshold st' = threshold st"
  by (induction vds arbitrary: st) (auto simp: Let_def split: if_splits)

lemma search_verses_mono:
  "search_verses fz nq key bn kb vds st = Inr st' \<Longrightarrow> best_score st \<le> best_score st'"
proof (induction vds arbitrary: st)
  case Nil then show ?case by simp
next
  case (Cons vd vds)
  then show ?case
    by (fastforce simp: Let_def split: if_splits)
qed

lemma search_verses_ok:
  "search_verses fz nq key bn kb vds st = Inr st' \<Longrightarrow> 0 \<le> best_score st \<Longrightarrow> state_ok st
     \<Longrightarrow> state_ok st'"
proof (induction vds arbitrary: st)
  case Nil then show ?case by simp
next
  case (Cons vd vds)
  show ?case
  proof (cases "is_number_search nq")
    case True
    with Cons show ?thesis by (auto simp: Let_def split: if_splits)
  next
    case False
    let ?s = "candidate_score fz nq kb vd"
    show ?thesis
    proof (cases "?s > best_score st \<and> ?s \<ge> of_int (threshold st)")
      case True
      let ?st1 = "st\<lparr>best_score := ?s,
                    best_match := Some \<lparr>entry = vd, match_score = ?s, number_str = verse_num_str vd,
                      match_book_key = key, book = bn, boost_applied = Some kb\<rparr>\<rparr>"
      have r: "search_verses fz nq key bn kb vds ?st1 = Inr st'"
        using Cons.prems(1) False True by (simp add: Let_def)
      have "0 \<le> best_score ?st1" using True Cons.prems(2) by simp
      moreover have "state_ok ?st1" using True Cons.prems(2) by (simp add: state_ok_def)
      ultimately show ?thesis using Cons.IH[OF r] by blast
    next
      case F2: False
      then have r: "search_verses fz nq key bn kb vds st = Inr st'"
        using Cons.prems(1) False by (auto simp: Let_def)
      show ?thesis using Cons.IH[OF r Cons.prems(2) Cons.prems(3)] .
    qed
  qed
qed

lemma search_verses_reaches:
  "search_verses fz nq key bn kb vds st = Inr st' \<Longrightarrow> \<not> is_number_search nq \<Longrightarrow>
   vd \<in> set vds \<Longrightarrow> candidate_score fz nq kb vd \<ge> of_int (threshold st) \<Longrightarrow>
   candidate_score fz nq kb vd \<le> best_score st'"
proof (induction vds arbitrary: st)
  case Nil then show ?case by simp
next
  case (Cons v vds)
  note nn = Cons.prems(2)
  let ?s = "candidate_score fz nq kb v"
  let ?st1 = "st\<lparr>best_score := ?s,
                  best_match := Some \<lparr>entry = v, match_score = ?s, number_str = verse_num_str v,
                    match_book_key = key, book = bn, boost_applied = Some kb\<rparr>\<rparr>"
  show ?case
  proof (cases "?s > best_score st \<and> ?s \<ge> of_int (threshold st)")
    case True
    have r: "search_verses fz nq key bn kb vds ?st1 = Inr st'"
      using Cons.prems(1) nn True by (simp add: Let_def)
    have m: "?s \<le> best_score st'" using search_verses_mono[OF r] by simp
    show ?thesis
    proof (cases "vd = v")
      case True then show ?thesis using m by simp
    next
      case F3: False
      then have "vd \<in> set vds" using Cons.prems(3) by simp
      then show ?thesis using Cons.IH[OF r nn] Cons.prems(4) by simp
    qed
  next
    case F2: False
    then have r: "search_verses fz nq key bn kb vds st = Inr st'"
      using Cons.prems(1) nn by (auto simp: Let_def)
    show ?thesis
    proof (cases "vd = v")
      case True
      then have "?s \<le> best_score st" using F2 Cons.prems(4) by auto
      then show ?thesis using search_verses_mono[OF r] True by simp
    next
      case F3: False
      then have "vd \<in> set vds" using Cons.prems(3) by simp
      then show ?thesis using Cons.IH[OF r nn] Cons.prems(4) by simp
    qed
  qed
qed

lemma search_verses_bound:
  "search_verses fz nq key bn kb vds st = Inr st' \<Longrightarrow> best_score st \<le> B \<Longrightarrow>
   (\<And>vd. vd \<in> set vds \<Longrightarrow> candidate_score fz nq kb vd \<le> B) \<Longrightarrow> best_score st' \<le> B"
proof (induction vds arbitrary: st)
  case Nil then show ?case by simp
next
  case (Cons v vds)
  show ?case
  proof (cases "is_number_search nq")
    case True
    with Cons.prems(1) have r: "search_verses fz nq key bn kb vds st = Inr st'"
      by (auto simp: Let_def split: if_splits)
    show ?thesis using Cons.IH[OF r Cons.prems(2)] Cons.prems(3) by simp
  next
    case False
    let ?s = "candidate_score fz nq kb v"
    let ?st1 = "st\<lparr>best_score := ?s,
                  best_match := Some \<lparr>entry = v, match_score = ?s, number_str = verse_num_str v,
                    match_book_key = key, book = bn, boost_applied = Some kb\<rparr>\<rparr>"
    show ?thesis
    proof (cases "?s > best_score st \<and> ?s \<ge> of_int (threshold st)")
      case True
      have r: "search_verses fz nq key bn kb vds ?st1 = Inr st'"
        using Cons.prems(1) False True by (simp add: Let_def)
      have "best_score ?st1 \<le> B" using Cons.prems(3)[of v] by simp
      then show ?thesis using Cons.IH[OF r] Cons.prems(3) by simp
    next
      case F2: False
      then have r: "search_verses fz nq key bn kb vds st = Inr st'"
        using Cons.prems(1) False by (auto simp: Let_def)
      show ?thesis using Cons.IH[OF r Cons.prems(2)] Cons.prems(3) by simp
    qed
  qed
qed

subsection \<open>The loop over the books\<close>

lemma book_threshold_le: "book_threshold key nq th \<le> th"
  by (simp add: book_threshold_def)

lemma search_books_Inr:
  "\<not> is_number_search nq \<Longrightarrow> \<exists>st'. search_books fz nq bs st = Inr st'"
proof (induction bs arbitrary: st)
  case Nil then show ?case by simp
next
  case (Cons b bs)
  obtain key db dt where b: "b = (key, db, dt)" by (cases b)
  show ?case
  proof (cases "verses db = []")
    case True then show ?thesis using Cons b by simp
  next
    case False
    obtain st2 where "search_verses fz nq key (get_or (title db) dt) (book_boost key nq) (verses db)
        (st\<lparr>threshold := book_threshold key nq (threshold st)\<rparr>) = Inr st2"
      using search_verses_Inr[OF Cons.prems] by blast
    then show ?thesis using Cons b False by (simp add: Let_def)
  qed
qed

lemma search_books_step:
  assumes "search_books fz nq ((key, db, dt) # bs) st = Inr st'"
  shows "(verses db = [] \<and> search_books fz nq bs st = Inr st') \<or>
         (verses db \<noteq> [] \<and> (\<exists>st2.
            search_verses fz nq key (get_or (title db) dt) (book_boost key nq) (verses db)
              (st\<lparr>threshold := book_threshold key nq (threshold st)\<rparr>) = Inr st2 \<and>
            search_books fz nq bs st2 = Inr st'))"
  using assms by (auto simp: Let_def split: if_splits sum.splits)

lemma search_books_threshold:
  "search_books fz nq bs st = Inr st' \<Longrightarrow> threshold st' \<le> threshold st"
proof (induction bs arbitrary: st)
  case Nil then show ?case by simp
next
  case (Cons b bs)
  obtain key db dt where b: "b = (key, db, dt)" by (cases b)
  from search_books_step[OF Cons.prems[unfolded b]] show ?case
  proof (elim disjE conjE exE)
    assume "search_books fz nq bs st = Inr st'"
    then show ?thesis by (rule Cons.IH)
  next
    fix st2
    assume v: "search_verses fz nq key (get_or (title db) dt) (book_boost key nq) (verses db)
              (st\<lparr>threshold := book_threshold key nq (threshold st)\<rparr>) = Inr st2"
      and r: "search_books fz nq bs st2 = Inr st'"
    have "threshold st2 = book_threshold key nq (threshold st)"
      using search_verses_threshold[OF v] by simp
    then show ?thesis using Cons.IH[OF r] book_threshold_le[of key nq "threshold st"] by simp
  qed
qed

lemma search_books_mono:
  "search_books fz nq bs st = Inr st' \<Longrightarrow> best_score st \<le> best_score st'"
proof (induction bs arbitrary: st)
  case Nil then show ?case by simp
next
  case (Cons b bs)
  obtain key db dt where b: "b = (key, db, dt)" by (cases b)
  from search_books_step[OF Cons.prems[unfolded b]] show ?case
  proof (elim disjE conjE exE)
    assume "search_books fz nq bs st = Inr st'"
    then show ?thesis by (rule Cons.IH)
  next
    fix st2
    assume v: "search_verses fz nq key (get_or (title db) dt) (book_boost key nq) (verses db)
              (st\<lparr>threshold := book_threshold key nq (threshold st)\<rparr>) = Inr st2"
      and r: "search_books fz nq bs st2 = Inr st'"
    show ?thesis using search_verses_mono[OF v] Cons.IH[OF r] by simp
  qed
qed

lemma search_books_ok:
  "search_books fz nq bs st = Inr st' \<Longrightarrow> 0 \<le> best_score st \<Longrightarrow> state_ok st \<Longrightarrow> state_ok st'"
proof (induction bs arbitrary: st)
  case Nil then show ?case by simp
next
  case (Cons b bs)
  obtain key db dt where b: "b = (key, db, dt)" by (cases b)
  from search_books_step[OF Cons.prems(1)[unfolded b]] show ?case
  proof (elim disjE conjE exE)
    assume "search_books fz nq bs st = Inr st'"
    then show ?thesis using Cons.IH Cons.prems by blast
  next
    fix st2
    assume v: "search_verses fz nq key (get_or (title db) dt) (book_boost key nq) (verses db)
              (st\<lparr>threshold := book_threshold key nq (threshold st)\<rparr>) = Inr st2"
      and r: "search_books fz nq bs st2 = Inr st'"
    have ok: "state_ok (st\<lparr>threshold := book_threshold key nq (threshold st)\<rparr>)"
      using Cons.prems(3) by (simp add: state_ok_def split: option.splits)
    have "state_ok st2" using search_verses_ok[OF v _ ok] Cons.prems(2) by simp
    moreover have "0 \<le> best_score st2" using search_verses_mono[OF v] Cons.prems(2) by simp
    ultimately show ?thesis using Cons.IH[OF r] by blast
  qed
qed

lemma search_books_reaches:
  "search_books fz nq bs st = Inr st' \<Longrightarrow> \<not> is_number_search nq \<Longrightarrow>
   (key, db, dt) \<in> set bs \<Longrightarrow> vd \<in> set (verses db) \<Longrightarrow>
   candidate_score fz nq (book_boost key nq) vd \<ge> of_int (threshold st) \<Longrightarrow>
   candidate_score fz nq (book_boost key nq) vd \<le> best_score st'"
proof (induction bs arbitrary: st)
  case Nil then show ?case by simp
next
  case (Cons b bs)
  obtain k d t where b: "b = (k, d, t)" by (cases b)
  let ?c = "candidate_score fz nq (book_boost key nq) vd"
  from search_books_step[OF Cons.prems(1)[unfolded b]] show ?case
  proof (elim disjE conjE exE)
    assume e: "verses d = []" and r: "search_books fz nq bs st = Inr st'"
    have "(key, db, dt) \<in> set bs" using Cons.prems(3,4) e b by auto
    then show ?thesis using Cons.IH[OF r Cons.prems(2) _ Cons.prems(4)] Cons.prems(5) by blast
  next
    fix st2
    assume v: "search_verses fz nq k (get_or (title d) t) (book_boost k nq) (verses d)
              (st\<lparr>threshold := book_threshold k nq (threshold st)\<rparr>) = Inr st2"
      and r: "search_books fz nq bs st2 = Inr st'"
    have th2: "threshold st2 \<le> threshold st"
      using search_verses_threshold[OF v] book_threshold_le[of k nq "threshold st"] by simp
    show ?thesis
    proof (cases "(key, db, dt) = (k, d, t)")
      case True
      have "(of_int (book_threshold k nq (threshold st)) :: rat) \<le> of_int (threshold st)"
        using book_threshold_le[of k nq "threshold st"] by simp
      then have "?c \<ge> of_int (threshold (st\<lparr>threshold := book_threshold k nq (threshold st)\<rparr>))"
        using Cons.prems(5) by simp
      then have "?c \<le> best_score st2"
        using search_verses_reaches[OF v Cons.prems(2), of vd] Cons.prems(4) True by simp
      then show ?thesis using search_books_mono[OF r] by simp
    next
      case False
      then have m: "(key, db, dt) \<in> set bs" using Cons.prems(3) b by auto
      have "(of_int (threshold st2) :: rat) \<le> of_int (threshold st)" using th2 by simp
      then have "?c \<ge> of_int (threshold st2)" using Cons.prems(5) by simp
      then show ?thesis using Cons.IH[OF r Cons.prems(2) m Cons.prems(4)] by simp
    qed
  qed
qed

lemma search_books_bound:
  "search_books fz nq bs st = Inr st' \<Longrightarrow> best_score st \<le> B \<Longrightarrow>
   (\<And>key db dt vd. (key, db, dt) \<in> set bs \<Longrightarrow> vd \<in> set (verses db) \<Longrightarrow>
      candidate_score fz nq (book_boost key nq) vd \<le> B) \<Longrightarrow> best_score st' \<le> B"
proof (induction bs arbitrary: st)
  case Nil then show ?case by simp
next
  case (Cons b bs)
  obtain k d t where b: "b = (k, d, t)" by (cases b)
  have rest: "\<And>key db dt vd. (key, db, dt) \<in> set bs \<Longrightarrow> vd \<in> set (verses db) \<Longrightarrow>
      candidate_score fz nq (book_boost key nq) vd \<le> B"
    using Cons.prems(3) by (meson list.set_intros(2))
  from search_books_step[OF Cons.prems(1)[unfolded b]] show ?case
  proof (elim disjE conjE exE)
    assume r: "search_books fz nq bs st = Inr st'"
    show ?thesis using Cons.IH[OF r Cons.prems(2)] rest by blast
  next
    fix st2
    assume v: "search_verses fz nq k (get_or (title d) t) (book_boost k nq) (verses d)
              (st\<lparr>threshold := book_threshold k nq (threshold st)\<rparr>) = Inr st2"
      and r: "search_books fz nq bs st2 = Inr st'"
    have "best_score st2 \<le> B"
    proof (rule search_verses_bound[OF v])
      show "best_score (st\<lparr>threshold := book_threshold k nq (threshold st)\<rparr>) \<le> B"
        using Cons.prems(2) by simp
    next
      fix vd assume "vd \<in> set (verses d)"
      then show "candidate_score fz nq (book_boost k nq) vd \<le> B"
        using Cons.prems(3)[of k d t vd] b by simp
    qed
    then show ?thesis using Cons.IH[OF r] rest by blast
  qed
qed

lemma fuzzy_search_scan:
  assumes "\<not> is_number_search (normalize_text q)"
  obtains st where
    "search_books fz (normalize_text q) (books_to_search self) (init_state (normalize_text q)) = Inr st"
    "state_ok st"
    "fuzzy_search_all_books fz self q =
       (case best_match st of None \<Rightarrow> None
        | Some m \<Rightarrow> if strict_sentence_mode (normalize_text q) \<and> match_score m < 95 then None
                    else Some m)"
proof -
  let ?nq = "normalize_text q"
  obtain st where st: "search_books fz ?nq (books_to_search self) (init_state ?nq) = Inr st"
    using search_books_Inr[OF assms] by blast
  have "state_ok (init_state ?nq)" by (simp add: state_ok_def init_state_def)
  then have ok: "state_ok st" using search_books_ok[OF st] by (simp add: init_state_def)
  have "fuzzy_search_all_books fz self q =
       (case best_match st of None \<Rightarrow> None
        | Some m \<Rightarrow> if strict_sentence_mode ?nq \<and> match_score m < 95 then None else Some m)"
    using st by (simp add: fuzzy_search_all_books_def Let_def init_state_def)
  then show ?thesis using that st ok by blast
qed

lemma initial_threshold_le: "initial_threshold nq \<le> 98"
  by (simp add: initial_threshold_def sentence_threshold_def length_threshold_def)

subsection \<open>Bounds on the score of a candidate\<close>

lemma py_int_nonpos: "x \<le> 0 \<Longrightarrow> py_int x \<le> 0"
  unfolding py_int_def by (auto simp: ceiling_le_zero)

lemma containment_bands_le: "containment_bands ql vl k n \<le> 95"
proof -
  have "py_int (70 * overlap_ratio k n) \<le> 95" if "overlap_ratio k n < 5/10"
  proof -
    have "py_int (70 * overlap_ratio k n) \<le> 70 * overlap_ratio k n"
      using overlap_ratio_nonneg[of k n] by (intro py_int_le) simp
    then show ?thesis using that by simp
  qed
  then show ?thesis unfolding containment_bands_def by (auto simp: not_le)
qed

lemma fuzzy_validate_le:
  assumes "s \<le> 100"
  shows "fuzzy_validate s ql vl k n \<le> 100"
proof -
  let ?r = "overlap_ratio k n"
  have r0: "0 \<le> ?r" by (rule overlap_ratio_nonneg)
  have a: "py_int (s * c) \<le> 100" if "0 \<le> c" "c \<le> 1" for c
  proof (cases "0 \<le> s")
    case True
    have "s * c \<le> s * 1" using that True by (intro mult_left_mono) auto
    moreover have "py_int (s * c) \<le> s * c" using that True by (intro py_int_le) simp
    ultimately show ?thesis using assms by simp
  next
    case False
    then have "s * c \<le> 0" using that by (simp add: mult_nonpos_nonneg)
    then have "py_int (s * c) \<le> 0" by (rule py_int_nonpos)
    then show ?thesis by simp
  qed
  have b1: "?r < 7/10 \<Longrightarrow> py_int (s * ?r) \<le> 100" using a[of ?r] r0 by simp
  have b2: "?r < 4/10 \<Longrightarrow> py_int (s * ?r * (15/10)) \<le> 100"
    using a[of "?r * (15/10)"] r0 by (simp add: mult.assoc)
  have b3: "py_int (s * (85/100)) \<le> 100" using a[of "85/100"] by simp
  have b4: "?r < 5/10 \<Longrightarrow> py_int (s * ?r * (12/10)) \<le> 100"
    using a[of "?r * (12/10)"] r0 by (simp add: mult.assoc)
  have b5: "py_int (s * (65/100)) \<le> 100" using a[of "65/100"] by simp
  show ?thesis unfolding fuzzy_validate_def Let_def
    using assms b1 b2 b3 b4 b5 by auto
qed

lemma verse_score_le:
  assumes "\<And>a b. token_set_ratio fz a b \<le> 100" "\<And>a b. partial_ratio fz a b \<le> 100"
    and "0 \<le> kb" "kb \<le> 13/10"
  shows "verse_score fz nq kb vd \<le> 130"
proof -
  have f: "fuzzy_score fz nq nv \<le> 100" for nv
  proof -
    have "max (token_set_ratio fz nq nv) (partial_ratio fz nq nv) \<le> 100"
      using assms(1)[of nq nv] assms(2)[of nq nv] by simp
    then have "(of_int (max (token_set_ratio fz nq nv) (partial_ratio fz nq nv)) :: rat) \<le> of_int 100"
      by (rule of_int_le_iff[THEN iffD2])
    then have "(of_int (max (token_set_ratio fz nq nv) (partial_ratio fz nq nv)) :: rat) \<le> 100"
      by simp
    then show ?thesis unfolding fuzzy_score_def by (rule fuzzy_validate_le)
  qed
  have c: "containment_score nq nv \<le> 95" for nv
    unfolding containment_score_def by (rule containment_bands_le)
  have e: "100 * kb \<le> 130" using assms(4) by simp
  let ?nv = "normalize_text (get_or (verse vd) [])"
  have c': "containment_score nq ?nv \<le> 130" using c[of ?nv] by simp
  have f': "fuzzy_score fz nq ?nv \<le> 130" using f[of ?nv] by simp
  show ?thesis unfolding verse_score_def Let_def
    using e c' f' by simp
qed

lemma book_boost_normalized:
  "0 < book_boost key (normalize_text q) \<and> book_boost key (normalize_text q) \<le> 13/10"
  by (simp add: book_boost_def not_thirukkural_structure_normalized)

lemma book_boost_ge_1:
  "key = kamba_ramayanam \<or> \<not> is_kamba_structure (normalize_text q)
     \<Longrightarrow> 1 \<le> book_boost key (normalize_text q)"
  by (auto simp: book_boost_def not_thirukkural_structure_normalized)

lemma chapter_score_le:
  assumes "\<And>a b. partial_ratio fz a b \<le> 100"
  shows "chapter_score fz nq vd \<le> 130"
proof -
  have "(of_int (partial_ratio fz nq nc) :: rat) \<le> 130" for nc
  proof -
    have "partial_ratio fz nq nc \<le> 130" using assms[of nq nc] by simp
    then have "(of_int (partial_ratio fz nq nc) :: rat) \<le> of_int 130"
      by (rule of_int_le_iff[THEN iffD2])
    then show ?thesis by simp
  qed
  then show ?thesis unfolding chapter_score_def Let_def by simp
qed

lemma candidate_score_le:
  assumes "\<And>a b. token_set_ratio fz a b \<le> 100" "\<And>a b. partial_ratio fz a b \<le> 100"
    and "0 \<le> kb" "kb \<le> 13/10"
  shows "candidate_score fz nq kb vd \<le> 130"
  using verse_score_le[OF assms, of nq vd] chapter_score_le[OF assms(2), of nq vd]
  unfolding candidate_score_def Let_def by simp

lemma exact_candidate:
  assumes "\<not> is_placeholder (get_or (verse vd) [])"
    and "normalize_text (get_or (verse vd) []) = nq" and "1 \<le> kb"
  shows "100 \<le> candidate_score fz nq kb vd"
proof -
  have "verse_score fz nq kb vd = 100 * kb"
    using assms(1,2) by (simp add: verse_score_def Let_def)
  then have "100 \<le> verse_score fz nq kb vd" using assms(3) by simp
  then have "100 \<le> max (verse_score fz nq kb vd) (chapter_score fz nq vd)" by simp
  moreover have "\<not> max (verse_score fz nq kb vd) (chapter_score fz nq vd) < 95"
    using calculation by linarith
  ultimately show ?thesis unfolding candidate_score_def Let_def by (simp only: simp_thms if_False)
qed

lemma analyze_Found:
  assumes "analyze fz self text = Found r"
  obtains m where "fuzzy_search_all_books fz self (preprocess_for_analysis text) = Some m"
    and "confidence r = match_score m / 100" and "source r = match_book_key m"
    and "number r = number_str m"
  using assms
  by (auto simp: analyze_def Let_def generate_generic_analysis_def
      split: if_splits option.splits)

lemma exact_match_search:
  assumes notnum: "\<not> is_number_search (normalize_text q)"
    and mem: "(key = thirukkural \<and> vd \<in> set (verses (thirukkural_db self)) \<and>
               \<not> is_kamba_structure (normalize_text q)) \<or>
              (key = kamba_ramayanam \<and> vd \<in> set (verses (kamba_db self)))"
    and np: "\<not> is_placeholder (get_or (verse vd) [])"
    and eq: "normalize_text (get_or (verse vd) []) = normalize_text q"
  shows "\<exists>m. fuzzy_search_all_books fz self q = Some m \<and> 100 \<le> match_score m"
proof -
  let ?nq = "normalize_text q"
  obtain st where st:
    "search_books fz ?nq (books_to_search self) (init_state ?nq) = Inr st"
    and ok: "state_ok st"
    and res: "fuzzy_search_all_books fz self q =
       (case best_match st of None \<Rightarrow> None
        | Some m \<Rightarrow> if strict_sentence_mode ?nq \<and> match_score m < 95 then None else Some m)"
    using fuzzy_search_scan[OF notnum] by blast
  have b1: "1 \<le> book_boost key ?nq" using mem by (intro book_boost_ge_1) auto
  have c: "100 \<le> candidate_score fz ?nq (book_boost key ?nq) vd"
    using exact_candidate[OF np eq b1] .
  obtain db dt where bk: "(key, db, dt) \<in> set (books_to_search self)" "vd \<in> set (verses db)"
    using mem by (auto simp: books_to_search_def)
  have "(of_int (threshold (init_state ?nq)) :: rat) \<le> of_int 98"
    unfolding of_int_le_iff by (simp add: init_state_def initial_threshold_le)
  then have "of_int (threshold (init_state ?nq)) \<le> candidate_score fz ?nq (book_boost key ?nq) vd"
    using c by simp
  then have "candidate_score fz ?nq (book_boost key ?nq) vd \<le> best_score st"
    using search_books_reaches[OF st notnum bk] by simp
  then have big: "100 \<le> best_score st" using c by simp
  then obtain m where m: "best_match st = Some m" "match_score m = best_score st"
    using ok by (auto simp: state_ok_def split: option.splits)
  then show ?thesis using res big by simp
qed

subsection \<open>Queries of digits\<close>

lemma no_space_dropWhile: "s \<noteq> [] \<Longrightarrow> \<not> isspace (hd s) \<Longrightarrow> dropWhile isspace s = s"
  by (cases s) auto

lemma no_space_strip:
  assumes "list_all (\<lambda>c. \<not> isspace c) s"
  shows "strip s = s"
proof (cases "s = []")
  case True then show ?thesis by (simp add: strip_def)
next
  case False
  have a: "dropWhile isspace s = s"
    using False assms by (intro no_space_dropWhile) (auto simp: list_all_iff)
  have "rev s \<noteq> []" using False by simp
  moreover have "\<not> isspace (hd (rev s))"
    using False assms by (auto simp: list_all_iff hd_rev)
  ultimately have "dropWhile isspace (rev s) = rev s" by (rule no_space_dropWhile)
  then show ?thesis by (simp add: strip_def a)
qed

lemma no_space_sub_ws: "list_all (\<lambda>c. \<not> isspace c) s \<Longrightarrow> sub_ws b s = s"
  by (induction s arbitrary: b) auto

lemma tamil_digit_props: "is_tamil_digit c \<Longrightarrow> is_tamil c \<and> \<not> isspace c \<and> is_digit_char c"
  by (auto simp: is_tamil_digit_def is_tamil_def isspace_def is_digit_char_def)

lemma digits_text:
  assumes "text \<noteq> []" "list_all is_tamil_digit text"
  shows "is_valid_tamil text" "clean_text text = text" "normalize_text text = text"
    "strip text = text" "is_number_search text"
proof -
  have ns: "list_all (\<lambda>c. \<not> isspace c) text"
    using assms(2) tamil_digit_props by (auto simp: list_all_iff)
  have tm: "list_all is_tamil text"
    using assms(2) tamil_digit_props by (auto simp: list_all_iff)
  have dg: "list_all is_digit_char text"
    using assms(2) tamil_digit_props by (auto simp: list_all_iff)
  show "is_valid_tamil text"
    using assms(1) tm by (cases "text") (auto simp: is_valid_tamil_def)
  show strip_id: "strip text = text" using ns by (rule no_space_strip)
  show "clean_text text = text"
    using assms(1) by (simp add: clean_text_def no_space_sub_ws[OF ns] strip_id)
  have "filter (\<lambda>c. is_tamil c \<or> isspace c) text = text"
    using tm by (auto simp: list_all_iff intro: filter_True)
  then show "normalize_text text = text"
    by (simp add: normalize_text_def no_space_sub_ws[OF ns] strip_id)
  show "is_number_search text"
    using assms(1) dg by (simp add: is_number_search_def strip_id isdigit_def)
qed

lemma find_first:
  "\<exists>x \<in> set xs. P x \<Longrightarrow> \<exists>y. find P xs = Some y \<and> P y"
  by (induction xs) auto

lemma found_number_match:
  assumes "is_valid_tamil q" "clean_text q = q"
    and "fuzzy_search_all_books fz self q = Some (number_match nq key bn vd)"
  shows "\<exists>r. analyze fz self q = Found r \<and> confidence r = 1 \<and>
           number r = verse_num_str vd \<and> source r = key"
  using assms(2,3) by (simp add: analyze_valid[OF assms(1)] number_match_def)

text \<open>A query of Tamil digits reaches the search by number, and finds the verse whose
  number is stored as that string.\<close>

lemma tamil_digit_query_found:
  assumes "text \<noteq> []" "list_all is_tamil_digit text"
    and "\<exists>vd \<in> set (verses (thirukkural_db self)) \<union> set (verses (kamba_db self)).
           verse_num_str vd = text"
  shows "\<exists>r. analyze fz self text = Found r \<and> confidence r = 1 \<and> number r = text \<and>
           source r = (if \<exists>vd \<in> set (verses (thirukkural_db self)). verse_num_str vd = text
                       then thirukkural else kamba_ramayanam)"
proof -
  note d = digits_text[OF assms(1,2)]
  let ?p = "\<lambda>vd. verse_num_str vd = text"
  have ns: "is_number_search (normalize_text text)" using d by simp
  note fs = fuzzy_search_number[OF ns, of fz self, unfolded Let_def d(3) d(4)]
  show ?thesis
  proof (cases "\<exists>vd \<in> set (verses (thirukkural_db self)). verse_num_str vd = text")
    case True
    then obtain vd where v: "find ?p (verses (thirukkural_db self)) = Some vd" "?p vd"
      using find_first[of "verses (thirukkural_db self)" ?p] by blast
    have "fuzzy_search_all_books fz self text =
        Some (number_match text thirukkural
                (get_or (title (thirukkural_db self)) thirukkural_title) vd)"
      unfolding fs v(1) by simp
    from found_number_match[OF d(1) d(2) this] show ?thesis using True v(2) by simp
  next
    case False
    then have n1: "find ?p (verses (thirukkural_db self)) = None"
      by (simp add: find_None_iff)
    from False assms(3) have "\<exists>vd \<in> set (verses (kamba_db self)). verse_num_str vd = text"
      by auto
    then obtain vd where v: "find ?p (verses (kamba_db self)) = Some vd" "?p vd"
      using find_first[of "verses (kamba_db self)" ?p] by blast
    have "fuzzy_search_all_books fz self text =
        Some (number_match text kamba_ramayanam
                (get_or (title (kamba_db self)) kamba_title) vd)"
      unfolding fs n1 v(1) by simp
    from found_number_match[OF d(1) d(2) this] show ?thesis using False v(2) by simp
  qed
qed

text \<open>A text without a Tamil character is answered with the marker for invalid input.\<close>

lemma clean_text_chars: "c \<in> set (clean_text t) \<Longrightarrow> c \<in> set t \<or> c = 0x20"
proof -
  assume a: "c \<in> set (clean_text t)"
  show ?thesis
  proof (cases "t = []")
    case True
    with a show ?thesis by (simp add: clean_text_def)
  next
    case False
    with a have "c \<in> set (strip (sub_ws False t))" by (simp add: clean_text_def)
    then have "c \<in> set (sub_ws False t)" using strip_subset by blast
    then show ?thesis using sub_ws_subset[of False t] by auto
  qed
qed

lemma no_tamil_invalid:
  assumes "strip t \<noteq> []" "\<not> is_valid_tamil t"
  shows "analyze fz self t = Invalid"
proof -
  have "t \<noteq> []" using assms(1) by (auto simp: strip_def)
  moreover have "\<not> is_valid_tamil (clean_text t)"
  proof
    assume "is_valid_tamil (clean_text t)"
    then obtain c where c: "c \<in> set (clean_text t)" "is_tamil c"
      by (auto simp: is_valid_tamil_def list_ex_iff)
    then have "c \<in> set t \<or> c = 0x20" using clean_text_chars by blast
    then have "c \<in> set t" using c(2) by (auto simp: is_tamil_def)
    then show False using assms(2) c(2) by (auto simp: is_valid_tamil_def list_ex_iff)
  qed
  ultimately show ?thesis using assms(1)
    by (simp add: analyze_def Let_def preprocess_for_analysis_def)
qed

lemma ascii_digits_invalid:
  assumes "t \<noteq> []" "list_all (\<lambda>c. 0x30 \<le> c \<and> c \<le> 0x39) t"
  shows "analyze fz self t = Invalid"
proof -
  have ns: "list_all (\<lambda>c. \<not> isspace c) t"
    using assms(2) by (auto simp: list_all_iff isspace_def)
  then have "strip t = t" by (rule no_space_strip)
  then have s: "strip t \<noteq> []" using assms(1) by simp
  have "\<not> is_valid_tamil t"
    using assms(2) by (auto simp: is_valid_tamil_def list_ex_iff list_all_iff is_tamil_def)
  with s show ?thesis by (rule no_tamil_invalid)
qed

lemma str_nat_ascii: "c \<in> set (str_nat n) \<Longrightarrow> c < 0x80"
proof (induction n arbitrary: c rule: str_nat.induct)
  case (1 n)
  show ?case
  proof (cases "n < 10")
    case True
    then have "str_nat n = [0x30 + n]" by (simp add: str_nat.simps)
    with "1.prems" True show ?thesis by simp
  next
    case False
    then have e: "str_nat n = str_nat (n div 10) @ [0x30 + n mod 10]"
      by (subst str_nat.simps) simp
    from "1.prems" e have "c \<in> set (str_nat (n div 10)) \<or> c = 0x30 + n mod 10" by auto
    then show ?thesis
    proof
      assume "c \<in> set (str_nat (n div 10))"
      then show ?thesis using "1.IH"[OF False] by simp
    next
      assume "c = 0x30 + n mod 10"
      moreover have "n mod 10 < 10" by simp
      ultimately show ?thesis by linarith
    qed
  qed
qed

lemma str_int_ascii: "c \<in> set (str_int i) \<Longrightarrow> c < 0x80"
  using str_nat_ascii by (auto simp: str_int_def split: if_splits)

text \<open>A number search is for a string of Tamil digits, and the decimal string of an
  integer has none: among entries whose number is an integer, or missing, the search by
  number finds nothing.\<close>

lemma number_search_digits:
  assumes "is_number_search (normalize_text q)"
  shows "strip (normalize_text q) \<noteq> []"
    and "c \<in> set (strip (normalize_text q)) \<Longrightarrow> 0xBE6 \<le> c"
proof -
  let ?s = "strip (normalize_text q)"
  from assms have d: "?s \<noteq> []" "list_all is_digit_char ?s"
    by (simp_all add: is_number_search_def isdigit_def)
  show "?s \<noteq> []" by (rule d(1))
  assume c: "c \<in> set ?s"
  then have "c \<in> set (normalize_text q)" using strip_subset by blast
  then have "is_tamil c \<or> c = 0x20" by (rule normalize_text_chars)
  moreover have "is_digit_char c" using d(2) c by (simp add: list_all_iff)
  ultimately show "0xBE6 \<le> c" by (auto simp: is_tamil_def is_digit_char_def)
qed

lemma integer_number_no_match:
  assumes "is_number_search (normalize_text q)"
    and "verse_number vd = None \<or> (\<exists>i. verse_number vd = Some (JInt i))"
  shows "verse_num_str vd \<noteq> strip (normalize_text q)"
proof
  assume e: "verse_num_str vd = strip (normalize_text q)"
  note d = number_search_digits[OF assms(1)]
  from d(1) obtain c where c: "c \<in> set (strip (normalize_text q))" by (cases "strip (normalize_text q)") auto
  then have big: "0xBE6 \<le> c" by (rule d(2))
  from assms(2) show False
  proof
    assume "verse_number vd = None"
    then have "verse_num_str vd = []" by (simp add: verse_num_str_def)
    with e d(1) show False by simp
  next
    assume "\<exists>i. verse_number vd = Some (JInt i)"
    then obtain i where "verse_number vd = Some (JInt i)" by blast
    then have "verse_num_str vd = str_int i" by (simp add: verse_num_str_def)
    with e c have "c \<in> set (str_int i)" by simp
    then have "c < 0x80" by (rule str_int_ascii)
    with big show False by simp
  qed
qed

lemma number_search_integer_numbers:
  assumes "is_number_search (normalize_text q)"
    and "\<And>vd. vd \<in> set (verses (thirukkural_db self)) \<union> set (verses (kamba_db self)) \<Longrightarrow>
           verse_number vd = None \<or> (\<exists>i. verse_number vd = Some (JInt i))"
  shows "fuzzy_search_all_books fz self q = None"
proof -
  let ?p = "\<lambda>vd. verse_num_str vd = strip (normalize_text q)"
  have "find ?p (verses (thirukkural_db self)) = None"
    using integer_number_no_match[OF assms(1)] assms(2) by (auto simp: find_None_iff)
  moreover have "find ?p (verses (kamba_db self)) = None"
    using integer_number_no_match[OF assms(1)] assms(2) by (auto simp: find_None_iff)
  ultimately show ?thesis
    by (simp add: fuzzy_search_number[OF assms(1)] Let_def)
qed

subsection \<open>The decision rule on the text it is given\<close>

lemma decision_rule_as_written:
  "(looks_like_verse nq \<longleftrightarrow>
      (query_lines nq = 2 \<and> 6 \<le> query_word_count nq \<and> query_word_count nq \<le> 10) \<or>
      has_kamba_character nq \<or> query_word_count nq > 10 \<or> query_lines nq > 2) \<and>
   (looks_like_verse nq \<longrightarrow>
      \<not> strict_sentence_mode nq \<and> sentence_threshold nq = 70 \<and>
      initial_threshold nq = length_threshold nq) \<and>
   (\<not> looks_like_verse nq \<and>
    ((is_modern_sentence nq \<and> query_word_count nq \<ge> 2) \<or> query_word_count nq \<le> 3) \<longrightarrow>
      strict_sentence_mode nq \<and> sentence_threshold nq = 98 \<and> initial_threshold nq = 98)"
  by (auto simp: looks_like_verse_def looks_like_thirukkural_def looks_like_kamba_def
      strict_sentence_mode_def sentence_threshold_def initial_threshold_def is_short_query_def)

subsection \<open>Scores below 95 do not depend on the lengths\<close>

lemma fuzzy_validate_low:
  "s < 95 \<Longrightarrow> fuzzy_validate s ql vl k n = fuzzy_validate s ql' vl' k n"
  by (simp add: fuzzy_validate_def Let_def)

subsection \<open>Entries that differ in the meaning\<close>

lemma same_but_meaning_fields:
  assumes "same_but_meaning vd vd'"
  shows "verse vd' = verse vd" "verse_number vd' = verse_number vd"
    "chapter_name vd' = chapter_name vd" "kandam vd' = kandam vd"
proof -
  have e: "vd' = vd\<lparr>meaning := meaning vd'\<rparr>" using assms by (simp add: same_but_meaning_def)
  show "verse vd' = verse vd" by (subst e) simp
  show "verse_number vd' = verse_number vd" by (subst e) simp
  show "chapter_name vd' = chapter_name vd" by (subst e) simp
  show "kandam vd' = kandam vd" by (subst e) simp
qed

lemma same_but_meaning_score:
  assumes "same_but_meaning vd vd'"
  shows "candidate_score fz nq kb vd' = candidate_score fz nq kb vd"
    and "verse_num_str vd' = verse_num_str vd"
  using same_but_meaning_fields[OF assms]
  by (simp_all add: candidate_score_def verse_score_def chapter_score_def verse_num_str_def)

lemma search_verses_rel:
  assumes "list_all2 same_but_meaning vds vds'" "state_rel st st'"
  shows "rel_sum match_rel state_rel
           (search_verses fz nq key bn kb vds st) (search_verses fz nq key bn kb vds' st')"
  using assms
proof (induction vds vds' arbitrary: st st' rule: list_all2_induct)
  case Nil
  then show ?case by simp
next
  case (Cons vd vds vd' vds')
  have sc: "candidate_score fz nq kb vd' = candidate_score fz nq kb vd"
    "verse_num_str vd' = verse_num_str vd"
    using same_but_meaning_score[OF Cons.hyps(1)] by simp_all
  let ?s = "candidate_score fz nq kb vd"
  show ?case
  proof (cases "is_number_search nq")
    case True
    show ?thesis
    proof (cases "strip nq = verse_num_str vd")
      case T2: True
      then show ?thesis using True sc(2) Cons.hyps(1) by (simp add: Let_def match_rel_def)
    next
      case False
      then show ?thesis using True sc(2) Cons.IH[OF Cons.prems] by (simp add: Let_def)
    qed
  next
    case False
    have eqs: "best_score st' = best_score st" "threshold st' = threshold st"
      using Cons.prems by (simp_all add: state_rel_def)
    show ?thesis
    proof (cases "?s > best_score st \<and> ?s \<ge> of_int (threshold st)")
      case True
      let ?m = "\<lambda>v. \<lparr>entry = v, match_score = ?s, number_str = verse_num_str vd,
                      match_book_key = key, book = bn, boost_applied = Some kb\<rparr>"
      have "state_rel (st\<lparr>best_score := ?s, best_match := Some (?m vd)\<rparr>)
                      (st'\<lparr>best_score := ?s, best_match := Some (?m vd')\<rparr>)"
        using Cons.prems Cons.hyps(1) by (simp add: state_rel_def match_rel_def)
      from Cons.IH[OF this] show ?thesis using True False sc eqs by (simp add: Let_def)
    next
      case F2: False
      then show ?thesis using False sc eqs Cons.IH[OF Cons.prems] by (auto simp: Let_def)
    qed
  qed
qed

lemma search_book_rel:
  assumes "same_but_meanings db db'" "state_rel st st'"
    and rest: "\<And>s s'. state_rel s s' \<Longrightarrow>
            rel_sum match_rel state_rel (search_books fz nq bs s) (search_books fz nq bs' s')"
  shows "rel_sum match_rel state_rel
           (search_books fz nq ((key, db, dt) # bs) st)
           (search_books fz nq ((key, db', dt) # bs') st')"
proof -
  have l: "list_all2 same_but_meaning (verses db) (verses db')" and t: "title db' = title db"
    using assms(1) by (simp_all add: same_but_meanings_def)
  have e: "verses db' = [] \<longleftrightarrow> verses db = []" using l by (auto simp: list_all2_Nil list_all2_Nil2)
  show ?thesis
  proof (cases "verses db = []")
    case True
    then show ?thesis using e rest[OF assms(2)] by simp
  next
    case False
    let ?st1 = "st\<lparr>threshold := book_threshold key nq (threshold st)\<rparr>"
    let ?st1' = "st'\<lparr>threshold := book_threshold key nq (threshold st')\<rparr>"
    have "state_rel ?st1 ?st1'" using assms(2) by (simp add: state_rel_def)
    then have sv: "rel_sum match_rel state_rel
        (search_verses fz nq key (get_or (title db) dt) (book_boost key nq) (verses db) ?st1)
        (search_verses fz nq key (get_or (title db) dt) (book_boost key nq) (verses db') ?st1')"
      by (rule search_verses_rel[OF l])
    then consider (L) a c where
        "search_verses fz nq key (get_or (title db) dt) (book_boost key nq) (verses db) ?st1 = Inl a"
        "search_verses fz nq key (get_or (title db) dt) (book_boost key nq) (verses db') ?st1' = Inl c"
        "match_rel a c"
      | (R) b d where
        "search_verses fz nq key (get_or (title db) dt) (book_boost key nq) (verses db) ?st1 = Inr b"
        "search_verses fz nq key (get_or (title db) dt) (book_boost key nq) (verses db') ?st1' = Inr d"
        "state_rel b d"
      by (auto simp: rel_sum.simps)
    then show ?thesis
    proof cases
      case L
      then show ?thesis using False e t by (simp add: Let_def)
    next
      case R
      then show ?thesis using False e t rest[OF R(3)] by (simp add: Let_def)
    qed
  qed
qed

lemma fuzzy_search_rel:
  assumes "same_but_meanings (thirukkural_db self) (thirukkural_db self')"
    and "same_but_meanings (kamba_db self) (kamba_db self')"
  shows "rel_option match_rel (fuzzy_search_all_books fz self q) (fuzzy_search_all_books fz self' q)"
proof -
  let ?nq = "normalize_text q"
  have r0: "rel_sum match_rel state_rel (search_books fz ?nq [] s) (search_books fz ?nq [] s')"
    if "state_rel s s'" for s s' using that by simp
  have r1: "rel_sum match_rel state_rel
      (search_books fz ?nq [(kamba_ramayanam, kamba_db self, kamba_title)] s)
      (search_books fz ?nq [(kamba_ramayanam, kamba_db self', kamba_title)] s')"
    if "state_rel s s'" for s s'
    by (rule search_book_rel[OF assms(2) that]) (rule r0)
  have i: "state_rel (init_state ?nq) (init_state ?nq)"
    by (simp add: state_rel_def init_state_def)
  have "rel_sum match_rel state_rel
      (search_books fz ?nq (books_to_search self) (init_state ?nq))
      (search_books fz ?nq (books_to_search self') (init_state ?nq))"
    unfolding books_to_search_def
    by (rule search_book_rel[OF assms(1) i]) (rule r1)
  then show ?thesis
    unfolding fuzzy_search_all_books_def Let_def init_state_def[symmetric]
    by (auto simp: rel_sum.simps state_rel_def match_rel_def option.rel_sel
        split: sum.splits option.splits)
qed

section \<open>Facts about the example data\<close>

text \<open>The facts below are evaluations by rewriting. Those about a search hold for every
  pair of similarity measures \<open>fz\<close>: the queries have 30 characters or more, so that no
  chapter name is scored, and every candidate is an exact or a substring match.\<close>

lemmas sublist_eval = sublist_code prefix_code

lemmas string_eval = isspace_def is_tamil_def strip_def normalize_text_def clean_text_def
  is_valid_tamil_def preprocess_for_analysis_def str_split_def isdigit_def is_digit_char_def

lemmas entry_eval = plain_entry_def empty_entry_def empty_db_def get_or_def verse_num_str_def
  str_int_def str_nat.simps

lemmas search_eval = fuzzy_search_all_books_def books_to_search_def Let_def book_boost_def
  book_threshold_def is_kamba_structure_def is_thirukkural_structure_def candidate_score_def
  verse_score_def chapter_score_def strict_sentence_mode_def initial_threshold_def
  length_threshold_def sentence_threshold_def

lemma rama_norm: "normalize_text rama_line = rama_line"
  by (simp add: rama_line_def string_eval)

lemma rama_clean: "preprocess_for_analysis rama_line = rama_line"
  by (simp add: rama_line_def string_eval)

lemma rama_clean_text: "clean_text rama_line = rama_line"
  by (simp add: rama_line_def string_eval)

lemma rama_valid: "is_valid_tamil rama_line"
  by (simp add: rama_line_def string_eval)

lemma rama_strip: "strip rama_line = rama_line"
  by (simp add: rama_line_def string_eval)

lemma rama_count: "query_word_count rama_line = 5"
  by (simp add: rama_line_def string_eval query_word_count_def)

lemma rama_lines: "query_lines rama_line = 1"
  by (simp add: rama_line_def query_lines_def)

lemma rama_char: "has_kamba_character rama_line"
  by (simp add: rama_line_def has_kamba_character_def kamba_characters_def sublist_eval)

lemma rama_char_book: "has_kamba_character_book rama_line"
  by (simp add: rama_line_def has_kamba_character_book_def kamba_characters_book_def sublist_eval)

lemma rama_not_number: "\<not> is_number_search rama_line"
  by (simp add: rama_line_def string_eval is_number_search_def)

lemma rama_len: "length rama_line = 46"
  by (simp add: rama_line_def)

lemma rama_not_placeholder: "\<not> is_placeholder rama_line"
  by (simp add: rama_line_def is_placeholder_def placeholder_prefix_def)

lemma rama_nonempty: "rama_line \<noteq> []"
  by (simp add: rama_line_def)

lemma rama_verse: "looks_like_verse rama_line"
  by (simp add: looks_like_verse_def looks_like_kamba_def rama_char)

lemmas rama_eval = rama_norm rama_clean rama_clean_text rama_valid rama_strip rama_count
  rama_lines rama_char rama_char_book rama_not_number rama_len rama_not_placeholder
  rama_nonempty rama_verse looks_like_verse_def looks_like_kamba_def

lemma short_norm: "normalize_text rama_verse_short = rama_verse_short"
  by (simp add: rama_verse_short_def rama_line_def string_eval)

lemma long_norm: "normalize_text rama_verse_long = rama_verse_long"
  by (simp add: rama_verse_long_def rama_line_def string_eval)

lemma short_props:
  "\<not> is_placeholder rama_verse_short" "length rama_verse_short = 52"
  "sublist rama_line rama_verse_short" "rama_line \<noteq> rama_verse_short"
  by (simp_all add: rama_verse_short_def is_placeholder_def placeholder_prefix_def rama_len)
     (simp_all add: rama_line_def)

lemma long_props:
  "\<not> is_placeholder rama_verse_long" "length rama_verse_long = 76"
  "sublist rama_line rama_verse_long" "rama_line \<noteq> rama_verse_long"
  by (simp_all add: rama_verse_long_def is_placeholder_def placeholder_prefix_def rama_len)
     (simp_all add: rama_line_def)

lemma thirukkural_only_search:
  "fuzzy_search_all_books fz thirukkural_only rama_line =
     Some \<lparr>entry = plain_entry 1 rama_line, match_score = 75, number_str = ascii_one,
       match_book_key = thirukkural, book = thirukkural_title, boost_applied = Some (3/4)\<rparr>"
  by (simp add: search_eval thirukkural_only_def rama_eval entry_eval ascii_one_def)

lemma kamba_only_search:
  "fuzzy_search_all_books fz kamba_only rama_line =
     Some \<lparr>entry = plain_entry 1 rama_line, match_score = 130, number_str = ascii_one,
       match_book_key = kamba_ramayanam, book = kamba_title, boost_applied = Some (13/10)\<rparr>"
  by (simp add: search_eval kamba_only_def rama_eval entry_eval ascii_one_def)

lemma two_books_scores:
  "candidate_score fz rama_line (3/4) (plain_entry 1 rama_verse_short) = 95"
  "candidate_score fz rama_line (13/10) (plain_entry 2 rama_verse_long) = 85"
  by (simp_all add: candidate_score_def verse_score_def chapter_score_def Let_def entry_eval
      short_norm long_norm short_props long_props rama_len containment_score_def
      containment_bands_def strict_sentence_mode_def rama_verse)

lemma two_books_search:
  "fuzzy_search_all_books fz two_books rama_line =
     Some \<lparr>entry = plain_entry 1 rama_verse_short, match_score = 95, number_str = ascii_one,
       match_book_key = thirukkural, book = thirukkural_title, boost_applied = Some (3/4)\<rparr>"
  by (simp add: fuzzy_search_all_books_def books_to_search_def Let_def book_boost_def
      book_threshold_def is_kamba_structure_def is_thirukkural_structure_def two_books_def
      rama_eval two_books_scores initial_threshold_def length_threshold_def
      strict_sentence_mode_def)
     (simp add: entry_eval ascii_one_def)

lemma vali_split:
  "str_split vali_sentence =
     [[0xBA8, 0xBBE, 0xBA9, 0xBCD], [0xBB5, 0xBBE, 0xBB2, 0xBBF],
      [0xBAA, 0xBB1, 0xBCD, 0xBB1, 0xBBF, 0xBAF], [0xB95, 0xBA4, 0xBC8, 0xBAF, 0xBC8],
      [0xBA8, 0xBC7, 0xBB1, 0xBCD, 0xBB1, 0xBC1],
      [0xBAA, 0xB9F, 0xBBF, 0xBA4, 0xBCD, 0xBA4, 0xBC7, 0xBA9, 0xBCD]]"
  by (simp add: vali_sentence_def str_split_def isspace_def)

lemma vali_count: "query_word_count vali_sentence = 6"
  by (simp add: query_word_count_def vali_split)

lemma vali_lines: "query_lines vali_sentence = 1"
  by (simp add: vali_sentence_def query_lines_def)

lemma vali_no_character: "\<not> has_kamba_character vali_sentence"
  by (simp add: vali_sentence_def has_kamba_character_def kamba_characters_def sublist_eval)

lemma vali_char_book: "has_kamba_character_book vali_sentence"
  by (simp add: vali_sentence_def has_kamba_character_book_def kamba_characters_book_def
      sublist_eval)

lemma vali_modern_verb: "has_modern_verb vali_sentence"
  by (simp add: has_modern_verb_def vali_split verb_endings_def suffix_to_prefix prefix_code)

lemma vali_not_verse: "\<not> looks_like_verse vali_sentence"
  by (simp add: looks_like_verse_def looks_like_thirukkural_def looks_like_kamba_def
      vali_count vali_lines vali_no_character)

lemma vali_strict: "strict_sentence_mode vali_sentence"
  by (simp add: strict_sentence_mode_def vali_not_verse is_modern_sentence_def
      vali_modern_verb vali_count)

lemma vali_norm: "normalize_text vali_sentence = vali_sentence"
  by (simp add: vali_sentence_def string_eval)

lemma vali_clean: "preprocess_for_analysis vali_sentence = vali_sentence"
  by (simp add: vali_sentence_def string_eval)

lemma vali_strip: "strip vali_sentence = vali_sentence"
  by (simp add: vali_sentence_def string_eval)

lemma vali_not_number: "\<not> is_number_search vali_sentence"
  by (simp add: vali_sentence_def string_eval is_number_search_def)

lemma vali_len: "length vali_sentence = 39"
  by (simp add: vali_sentence_def)

lemma vali_nonempty: "vali_sentence \<noteq> []"
  by (simp add: vali_sentence_def)

lemma vali_verse_norm: "normalize_text vali_verse = vali_verse"
  by (simp add: vali_verse_def vali_sentence_def string_eval)

lemma vali_verse_props:
  "\<not> is_placeholder vali_verse" "length vali_verse = 47"
  "sublist vali_sentence vali_verse" "vali_sentence \<noteq> vali_verse"
  by (simp_all add: vali_verse_def is_placeholder_def placeholder_prefix_def vali_len)
     (simp_all add: vali_sentence_def)

lemma vali_score:
  "candidate_score fz vali_sentence (13/10) (plain_entry 7 vali_verse) = 95"
  by (simp add: candidate_score_def verse_score_def chapter_score_def Let_def entry_eval
      vali_verse_norm vali_verse_props vali_len containment_score_def containment_bands_def)

lemma kamba_vali_search:
  "fuzzy_search_all_books fz kamba_vali vali_sentence =
     Some \<lparr>entry = plain_entry 7 vali_verse, match_score = 95, number_str = [0x37],
       match_book_key = kamba_ramayanam, book = kamba_title, boost_applied = Some (13/10)\<rparr>"
  by (simp add: fuzzy_search_all_books_def books_to_search_def Let_def book_boost_def
      book_threshold_def is_kamba_structure_def is_thirukkural_structure_def kamba_vali_def
      vali_norm vali_char_book vali_lines vali_not_number vali_score initial_threshold_def
      sentence_threshold_def vali_strict empty_db_def)
     (simp add: entry_eval)

lemma ascii_one_invalid: "analyze fz thirukkural_only ascii_one = Invalid"
  by (simp add: analyze_def ascii_one_def string_eval Let_def)

lemma ascii_one_number: "verse_num_str (plain_entry 1 rama_line) = ascii_one"
  by (simp add: entry_eval ascii_one_def)

lemma rama_came_props:
  "normalize_text rama_name = rama_name" "\<not> is_placeholder rama_name"
  "sublist rama_name rama_came" "rama_came \<noteq> rama_name"
  "length rama_name = 6" "length rama_came = 14"
  "\<not> sublist rama_came rama_name"
  by (simp_all add: rama_came_def rama_name_def string_eval is_placeholder_def
      placeholder_prefix_def sublist_eval)

lemma rama_came_score:
  "verse_score fz rama_came 1 (plain_entry 1 rama_name) = 95"
  by (simp add: verse_score_def Let_def entry_eval rama_came_props containment_score_def
      containment_bands_def)

lemma rama_came_overlap:
  "overlap_ratio (length (common_words rama_came rama_name)) (length (query_word_set rama_came))
     = 1/2"
  by (simp add: overlap_ratio_def common_words_def query_word_set_def rama_came_def
      rama_name_def str_split_def isspace_def)

lemma letters_props:
  "normalize_text letters_verse_a = letters_verse_a"
  "normalize_text letters_verse_b = letters_verse_b"
  "\<not> is_placeholder letters_verse_a" "\<not> is_placeholder letters_verse_b"
  "letters_query \<noteq> letters_verse_a" "letters_query \<noteq> letters_verse_b"
  "\<not> sublist letters_query letters_verse_a" "\<not> sublist letters_verse_a letters_query"
  "\<not> sublist letters_query letters_verse_b" "\<not> sublist letters_verse_b letters_query"
  by (simp_all add: letters_query_def letters_verse_a_def letters_verse_b_def string_eval
      is_placeholder_def placeholder_prefix_def sublist_eval)

lemma letters_overlap:
  "length (query_word_set letters_query) = 4"
  "length (common_words letters_query letters_verse_a) = 1"
  "length (common_words letters_query letters_verse_b) = 2"
  by (simp_all add: common_words_def query_word_set_def letters_query_def letters_verse_a_def
      letters_verse_b_def str_split_def isspace_def)

lemma letters_scores:
  "verse_score fuzz95 letters_query 1 (plain_entry 1 letters_verse_a) = 95"
  "verse_score fuzz95 letters_query 1 (plain_entry 2 letters_verse_b) = 0"
  by (simp_all add: verse_score_def Let_def entry_eval letters_props fuzzy_score_def fuzz95_def
      letters_overlap fuzzy_validate_def overlap_ratio_def)
     (simp_all add: letters_query_def letters_verse_a_def letters_verse_b_def)

lemma floor_rat_numeral: "\<lfloor>(numeral a :: rat) / numeral b\<rfloor> = numeral a div numeral b"
  using floor_divide_of_int_eq[of "numeral a" "numeral b", where ?'a = rat] by simp

lemma fuzzy_validate_values:
  "fuzzy_validate 90 10 20 1 4 = 33" "fuzzy_validate 90 10 20 3 4 = 90"
  "overlap_ratio 1 4 \<le> overlap_ratio 3 4"
  by (simp_all add: fuzzy_validate_def overlap_ratio_def Let_def py_int_def floor_rat_numeral)

lemma pain_counts:
  "count_matching positive_words (str_split pain_word) = 0"
  "count_matching negative_words (str_split pain_word) = 1"
  by (simp_all add: pain_word_def str_split_def isspace_def count_matching_def
      positive_words_def negative_words_def sublist_eval)

lemma thanks_counts:
  "count_matching positive_words (str_split thanks_word) = 1"
  "count_matching negative_words (str_split thanks_word) = 0"
  by (simp_all add: thanks_word_def str_split_def isspace_def count_matching_def
      positive_words_def negative_words_def sublist_eval)

lemma glossed_same:
  "same_but_meanings (thirukkural_db thirukkural_only) (thirukkural_db thirukkural_glossed)"
  "same_but_meanings (kamba_db thirukkural_only) (kamba_db thirukkural_glossed)"
  by (simp_all add: same_but_meanings_def same_but_meaning_def thirukkural_only_def
      thirukkural_glossed_def entry_eval)

lemma thirukkural_only_analyze:
  "analyze fz thirukkural_only rama_line =
     Found \<lparr>source = thirukkural, result_book = thirukkural_title, result_section = [],
       result_chapter = [], number = ascii_one, result_verse = rama_line, result_meaning = [],
       result_summary = [], confidence = 75/100, result_entry = plain_entry 1 rama_line\<rparr>"
  by (simp add: analyze_def Let_def rama_strip rama_clean rama_nonempty thirukkural_only_search)
     (simp add: entry_eval)

lemma kamba_only_analyze:
  "analyze fz kamba_only rama_line =
     Found \<lparr>source = kamba_ramayanam, result_book = kamba_title, result_section = [],
       result_chapter = [], number = ascii_one, result_verse = rama_line, result_meaning = [],
       result_summary = [], confidence = 130/100, result_entry = plain_entry 1 rama_line\<rparr>"
  by (simp add: analyze_def Let_def rama_strip rama_clean rama_nonempty kamba_only_search)
     (simp add: entry_eval)

lemma two_books_analyze:
  "analyze fz two_books rama_line =
     Found \<lparr>source = thirukkural, result_book = thirukkural_title, result_section = [],
       result_chapter = [], number = ascii_one, result_verse = rama_verse_short,
       result_meaning = [], result_summary = [], confidence = 95/100,
       result_entry = plain_entry 1 rama_verse_short\<rparr>"
  by (simp add: analyze_def Let_def rama_strip rama_clean rama_nonempty two_books_search)
     (simp add: entry_eval)

lemma two_books_boosts:
  "book_boost thirukkural rama_line = 75/100" "book_boost kamba_ramayanam rama_line = 130/100"
  by (simp_all add: book_boost_def is_kamba_structure_def is_thirukkural_structure_def
      rama_char_book rama_lines)

lemma vali_threshold:
  "initial_threshold vali_sentence = 98" "book_threshold kamba_ramayanam vali_sentence 98 = 42"
  by (simp_all add: initial_threshold_def sentence_threshold_def vali_strict book_threshold_def
      is_kamba_structure_def vali_char_book)

lemma vali_boost: "book_boost kamba_ramayanam vali_sentence = 130/100"
  by (simp add: book_boost_def is_kamba_structure_def is_thirukkural_structure_def
      vali_char_book vali_lines)

lemma kamba_vali_analyze:
  "analyze fz kamba_vali vali_sentence =
     Found \<lparr>source = kamba_ramayanam, result_book = kamba_title, result_section = [],
       result_chapter = [], number = [0x37], result_verse = vali_verse,
       result_meaning = [], result_summary = [], confidence = 95/100,
       result_entry = plain_entry 7 vali_verse\<rparr>"
  by (simp add: analyze_def Let_def vali_strip vali_clean vali_nonempty kamba_vali_search)
     (simp add: entry_eval)

lemma plain_entry_verse: "get_or (verse (plain_entry n t)) [] = t"
  by (simp add: entry_eval)

lemmas couplet_defs = two_line_query_def couplet_joined_def couplet_line1_def couplet_line2_def

lemma two_line_shape:
  "query_lines two_line_query = 2" "query_word_count two_line_query = 6"
  "looks_like_thirukkural two_line_query"
  by (simp_all add: looks_like_thirukkural_def query_lines_def query_word_count_def
      str_split_def isspace_def couplet_defs)

lemma two_line_nonempty: "two_line_query \<noteq> []" "strip two_line_query \<noteq> []"
  by (simp_all add: couplet_defs strip_def isspace_def)

lemma two_line_clean: "preprocess_for_analysis two_line_query = couplet_joined"
  by (simp add: couplet_defs string_eval)

lemma couplet_norm: "normalize_text couplet_joined = couplet_joined"
  by (simp add: couplet_defs string_eval)

lemma couplet_split:
  "str_split couplet_joined =
     [[0xBA8, 0xBBE, 0xBA9, 0xBCD], [0xBA8, 0xBC7, 0xBB1, 0xBCD, 0xBB1, 0xBC1],
      [0xB95, 0xBA4, 0xBC8, 0xBAF, 0xBC8], [0xBAA, 0xBB1, 0xBCD, 0xBB1, 0xBBF, 0xBAF],
      [0xBAE, 0xBBE, 0xBB2, 0xBC8, 0xBAF, 0xBBF, 0xBB2, 0xBCD],
      [0xBAA, 0xB9F, 0xBBF, 0xBA4, 0xBCD, 0xBA4, 0xBC7, 0xBA9, 0xBCD]]"
  by (simp add: couplet_defs str_split_def isspace_def)

lemma couplet_count: "query_word_count couplet_joined = 6"
  by (simp add: query_word_count_def couplet_split)

lemma couplet_lines: "query_lines couplet_joined = 1"
  by (simp add: couplet_defs query_lines_def)

lemma couplet_no_character: "\<not> has_kamba_character couplet_joined"
  by (simp add: couplet_defs has_kamba_character_def kamba_characters_def sublist_eval)

lemma couplet_no_character_book: "\<not> has_kamba_character_book couplet_joined"
  by (simp add: couplet_defs has_kamba_character_book_def kamba_characters_book_def
      sublist_eval)

lemma couplet_modern_verb: "has_modern_verb couplet_joined"
  by (simp add: has_modern_verb_def couplet_split verb_endings_def suffix_to_prefix prefix_code)

lemma couplet_not_verse: "\<not> looks_like_verse couplet_joined"
  by (simp add: looks_like_verse_def looks_like_thirukkural_def looks_like_kamba_def
      couplet_count couplet_lines couplet_no_character)

lemma couplet_strict: "strict_sentence_mode couplet_joined"
  by (simp add: strict_sentence_mode_def couplet_not_verse is_modern_sentence_def
      couplet_modern_verb couplet_count)

lemma couplet_threshold: "initial_threshold couplet_joined = 98"
  by (simp add: initial_threshold_def sentence_threshold_def couplet_strict)

lemma couplet_not_number: "\<not> is_number_search couplet_joined"
  by (simp add: couplet_defs string_eval is_number_search_def)

lemma couplet_len: "length couplet_joined = 43"
  by (simp add: couplet_defs)

lemma couplet_verse_norm: "normalize_text couplet_verse = couplet_verse"
  by (simp add: couplet_verse_def couplet_defs string_eval)

lemma couplet_verse_props:
  "\<not> is_placeholder couplet_verse" "length couplet_verse = 63"
  "sublist couplet_joined couplet_verse" "couplet_joined \<noteq> couplet_verse"
  by (simp_all add: couplet_verse_def is_placeholder_def placeholder_prefix_def couplet_len)
     (simp_all add: couplet_defs)

lemma couplet_boost: "book_boost thirukkural couplet_joined = 1"
  "book_threshold thirukkural couplet_joined 98 = 98"
  by (simp_all add: book_boost_def book_threshold_def is_kamba_structure_def
      is_thirukkural_structure_def couplet_no_character_book couplet_lines couplet_count)

lemma couplet_scores:
  "verse_score fz couplet_joined 1 (plain_entry 3 couplet_verse) = 85"
  "chapter_score fz couplet_joined (plain_entry 3 couplet_verse) = 0"
  "candidate_score fz couplet_joined 1 (plain_entry 3 couplet_verse) = 0"
  by (simp_all add: candidate_score_def verse_score_def chapter_score_def Let_def entry_eval
      couplet_verse_norm couplet_verse_props couplet_len containment_score_def
      containment_bands_def couplet_strict)

lemma couplet_search: "fuzzy_search_all_books fz couplet_book couplet_joined = None"
  by (simp add: fuzzy_search_all_books_def books_to_search_def Let_def couplet_book_def
      couplet_norm couplet_boost couplet_threshold couplet_not_number couplet_scores
      empty_db_def)

lemma couplet_analyze: "decision (analyze fz couplet_book two_line_query) = None"
  by (simp add: analyze_def Let_def two_line_nonempty two_line_clean couplet_search
      decision_def generate_generic_analysis_def)

section \<open>The claims\<close>

subsection \<open>C1: a query equal to a stored verse\<close>

text \<open>
  Claim C1 says that a query whose normalised text equals the normalised text of a stored
  verse that is no placeholder is found with confidence at least 0.95. The score of an
  exact match is 100 times the boost of the book, and the boost of the first book is 0.75
  when the query has the structure expected of the second book (a character name or more
  than ten words). At the input below the only verse of the first book is the query
  itself, and the confidence returned is 0.75.
\<close>

theorem exact_match_counterexample:
  "normalize_text (preprocess_for_analysis rama_line) =
     normalize_text (get_or (verse (plain_entry 1 rama_line)) []) \<and>
   \<not> is_placeholder (get_or (verse (plain_entry 1 rama_line)) []) \<and>
   decision (analyze no_fuzz thirukkural_only rama_line) =
     Some (thirukkural, ascii_one, rama_line, 75/100)"
  by (simp add: thirukkural_only_analyze decision_def rama_clean rama_not_placeholder
      entry_eval)

text \<open>
  Claim C1 as amended: for every query with a Tamil character that is not a string of
  digits, and every stored verse that is no placeholder and whose normalised text equals
  that of the query, if the verse is in the second book (Kamba Ramayanam), or in the first
  book (Thirukkural) and the query has no name of the list of line 192 and at most ten
  words, \<open>analyze\<close> returns found = true with confidence at least 0.95.
\<close>

theorem exact_match_found:
  assumes "is_valid_tamil text"
    and "\<not> is_number_search (normalize_text (clean_text text))"
    and "(key = thirukkural \<and> vd \<in> set (verses (thirukkural_db self)) \<and>
          \<not> is_kamba_structure (normalize_text (clean_text text))) \<or>
         (key = kamba_ramayanam \<and> vd \<in> set (verses (kamba_db self)))"
    and "\<not> is_placeholder (get_or (verse vd) [])"
    and "normalize_text (get_or (verse vd) []) = normalize_text (clean_text text)"
  shows "\<exists>r. analyze fz self text = Found r \<and> 95/100 \<le> confidence r"
proof -
  obtain m where m: "fuzzy_search_all_books fz self (clean_text text) = Some m"
    "100 \<le> match_score m"
    using exact_match_search[OF assms(2,3,4,5)] by blast
  then show ?thesis using analyze_valid[OF assms(1), of fz self] by simp
qed

theorem exact_match_found_witness:
  "is_valid_tamil rama_line \<and>
   \<not> is_number_search (normalize_text (clean_text rama_line)) \<and>
   plain_entry 1 rama_line \<in> set (verses (kamba_db kamba_only)) \<and>
   (\<exists>r. analyze no_fuzz kamba_only rama_line = Found r \<and> 95/100 \<le> confidence r)"
proof -
  have v: "is_valid_tamil rama_line" by (rule rama_valid)
  have n: "\<not> is_number_search (normalize_text (clean_text rama_line))"
    by (simp add: rama_clean_text rama_norm rama_not_number)
  have m: "plain_entry 1 rama_line \<in> set (verses (kamba_db kamba_only))"
    by (simp add: kamba_only_def)
  have p: "\<not> is_placeholder (get_or (verse (plain_entry 1 rama_line)) [])"
    by (simp add: entry_eval rama_not_placeholder)
  have e: "normalize_text (get_or (verse (plain_entry 1 rama_line)) []) =
           normalize_text (clean_text rama_line)"
    by (simp add: entry_eval rama_clean_text)
  from exact_match_found[OF v n _ p e, of kamba_ramayanam kamba_only no_fuzz] m
  show ?thesis using v n by simp
qed

subsection \<open>C2: the winner across the books\<close>

text \<open>
  Claim C2 says that the winner across the books is selected by the boosted score, the
  score of a candidate times the boost of its book, for every candidate. The comment
  before the final check of \<open>_fuzzy_search_all_books\<close> says the same ("return the match
  with the HIGHEST boosted score"), but the comparison of line 377 is on \<open>score\<close>, and the
  boost enters the score of an exact match only. At the input below the verse of the
  first book contains the query and scores 95 with boost 0.75 (boosted 71.25), the verse
  of the second book contains it and scores 85 with boost 1.30 (boosted 110.5), and the
  verse of the first book is returned.
\<close>

theorem winner_by_unboosted_score:
  "candidate_score no_fuzz (normalize_text rama_line)
     (book_boost thirukkural (normalize_text rama_line)) (plain_entry 1 rama_verse_short) = 95 \<and>
   candidate_score no_fuzz (normalize_text rama_line)
     (book_boost kamba_ramayanam (normalize_text rama_line)) (plain_entry 2 rama_verse_long) = 85 \<and>
   book_boost thirukkural (normalize_text rama_line) = 75/100 \<and>
   book_boost kamba_ramayanam (normalize_text rama_line) = 130/100 \<and>
   decision (analyze no_fuzz two_books rama_line) =
     Some (thirukkural, ascii_one, rama_verse_short, 95/100)"
  by (simp add: rama_norm two_books_boosts two_books_scores two_books_analyze decision_def)

subsection \<open>C3: a query that is a verse number\<close>

text \<open>
  Claim C3 says that a query consisting of a verse number present in a corpus is found
  with confidence 1.0 for that corpus. The search has a branch for a query that is a
  number (lines 173--174 and 240--250), but it tests the normalised query, from which
  \<open>normalize_text\<close> has removed the ASCII digits (line 84), and \<open>analyze\<close> answers a text
  without a Tamil character with the marker for invalid input before any search. At the
  input below the first book has a verse with the number 1, and the query "1" is
  invalid.
\<close>

theorem ascii_number_query_invalid:
  "verse_num_str (plain_entry 1 rama_line) = ascii_one \<and>
   plain_entry 1 rama_line \<in> set (verses (thirukkural_db thirukkural_only)) \<and>
   isdigit ascii_one \<and>
   normalize_text ascii_one = [] \<and>
   \<not> is_number_search (normalize_text ascii_one) \<and>
   analyze no_fuzz thirukkural_only ascii_one = Invalid"
proof -
  have "plain_entry 1 rama_line \<in> set (verses (thirukkural_db thirukkural_only))"
    by (simp add: thirukkural_only_def)
  moreover have "isdigit ascii_one" "normalize_text ascii_one = []"
    by (simp_all add: ascii_one_def string_eval)
  moreover have "\<not> is_number_search []" by (simp add: is_number_search_def string_eval)
  ultimately show ?thesis using ascii_one_number ascii_one_invalid by simp
qed

subsection \<open>C4: the range of the confidence\<close>

text \<open>
  Claim C4 says that the confidence of a found result lies between 0.0 and 1.0. The
  confidence is the score of the match divided by 100, and the score of an exact match is
  100 times the boost of the book, which is 1.30 for the second book when the query has
  its structure. At the input below the confidence is 1.3.
\<close>

theorem confidence_counterexample:
  "decision (analyze no_fuzz kamba_only rama_line) =
     Some (kamba_ramayanam, ascii_one, rama_line, 13/10)"
  by (simp add: kamba_only_analyze decision_def)

text \<open>
  Claim C4 as amended: when both similarity measures return values of at most 100, for
  every query for which \<open>analyze\<close> returns found = true the confidence is above 0.0 and at
  most 1.3.
\<close>

theorem confidence_range:
  assumes "\<And>a b. token_set_ratio fz a b \<le> 100" "\<And>a b. partial_ratio fz a b \<le> 100"
    and "analyze fz self text = Found r"
  shows "0 < confidence r \<and> confidence r \<le> 13/10"
proof -
  obtain m where m: "fuzzy_search_all_books fz self (preprocess_for_analysis text) = Some m"
    and c: "confidence r = match_score m / 100"
    using analyze_Found[OF assms(3)] by blast
  let ?q = "preprocess_for_analysis text"
  let ?nq = "normalize_text ?q"
  have "0 < match_score m \<and> match_score m \<le> 130"
  proof (cases "is_number_search ?nq")
    case True
    then have "match_score m = 100"
      using m by (auto simp: fuzzy_search_number Let_def number_match_def split: option.splits)
    then show ?thesis by simp
  next
    case False
    obtain st where st:
      "search_books fz ?nq (books_to_search self) (init_state ?nq) = Inr st"
      and ok: "state_ok st"
      and res: "fuzzy_search_all_books fz self ?q =
         (case best_match st of None \<Rightarrow> None
          | Some m \<Rightarrow> if strict_sentence_mode ?nq \<and> match_score m < 95 then None else Some m)"
      using fuzzy_search_scan[OF False] by blast
    have bm: "best_match st = Some m" using res m by (auto split: option.splits if_splits)
    then have s: "match_score m = best_score st" "0 < best_score st"
      using ok by (auto simp: state_ok_def)
    have "best_score st \<le> 130"
    proof (rule search_books_bound[OF st])
      show "best_score (init_state ?nq) \<le> 130" by (simp add: init_state_def)
    next
      fix key db dt vd
      show "candidate_score fz ?nq (book_boost key ?nq) vd \<le> 130"
        using book_boost_normalized[of key ?q]
        by (intro candidate_score_le assms(1,2)) auto
    qed
    then show ?thesis using s by simp
  qed
  then show ?thesis using c by simp
qed

theorem confidence_range_witness:
  "\<exists>r. analyze no_fuzz thirukkural_only rama_line = Found r \<and>
       0 < confidence r \<and> confidence r \<le> 13/10"
proof -
  have t: "\<And>a b. token_set_ratio no_fuzz a b \<le> 100" by (simp add: no_fuzz_def)
  have p: "\<And>a b. partial_ratio no_fuzz a b \<le> 100" by (simp add: no_fuzz_def)
  obtain r where r: "analyze no_fuzz thirukkural_only rama_line = Found r"
    using thirukkural_only_analyze by blast
  from confidence_range[OF t p r] r show ?thesis by blast
qed

subsection \<open>C5: a modern sentence in strict mode\<close>

text \<open>
  Claim C5 says that for a query without verse shape that has a modern verb ending and at
  least two words, nothing is found unless a candidate reaches a score of 98; the
  comments of the classifier say the same ("Only allow if it's 98%+ match"). The
  threshold 98 is lowered to 42 for the second book when the query contains a name of
  the list of line 192, which is longer than the list of line 140 that decides the verse
  shape. At the input below the query is in strict mode, the only candidate scores 95, and
  it is returned with confidence 0.95.
\<close>

theorem strict_mode_accepts_95:
  "\<not> looks_like_verse (normalize_text vali_sentence) \<and>
   has_modern_verb (normalize_text vali_sentence) \<and>
   query_word_count (normalize_text vali_sentence) = 6 \<and>
   strict_sentence_mode (normalize_text vali_sentence) \<and>
   initial_threshold (normalize_text vali_sentence) = 98 \<and>
   book_threshold kamba_ramayanam (normalize_text vali_sentence) 98 = 42 \<and>
   candidate_score no_fuzz (normalize_text vali_sentence)
     (book_boost kamba_ramayanam (normalize_text vali_sentence)) (plain_entry 7 vali_verse) = 95 \<and>
   decision (analyze no_fuzz kamba_vali vali_sentence) =
     Some (kamba_ramayanam, [0x37], vali_verse, 95/100)"
  by (simp add: vali_norm vali_not_verse vali_modern_verb vali_count vali_strict
      vali_threshold vali_boost vali_score kamba_vali_analyze decision_def)

subsection \<open>C6: the decision rule of the classifier\<close>

text \<open>
  Claim C6 says that a query of exactly two lines and six to ten words is verse-shaped, so
  that the lexical cues are ignored and strict mode is never engaged; the comments at
  lines 136--137 and 144--145 say the same. The classifier counts the line breaks of the
  normalised query (line 134), in which every run of whitespace, line breaks included, has
  become one space (line 87): the count of lines is always 1 and the two-line shape never
  holds. At the input below the query has two lines and six words, a modern verb ending
  and no character name: the query as classified has one line, strict mode is engaged
  with threshold 98, and the verse that begins with the query, whose score is 85, is not
  found.
\<close>

theorem two_line_query_strict:
  "query_lines two_line_query = 2 \<and> query_word_count two_line_query = 6 \<and>
   \<not> has_kamba_character two_line_query \<and>
   query_lines (normalize_text (preprocess_for_analysis two_line_query)) = 1 \<and>
   has_modern_verb (normalize_text (preprocess_for_analysis two_line_query)) \<and>
   \<not> looks_like_verse (normalize_text (preprocess_for_analysis two_line_query)) \<and>
   strict_sentence_mode (normalize_text (preprocess_for_analysis two_line_query)) \<and>
   initial_threshold (normalize_text (preprocess_for_analysis two_line_query)) = 98 \<and>
   verse_score no_fuzz (normalize_text (preprocess_for_analysis two_line_query)) 1
     (plain_entry 3 couplet_verse) = 85 \<and>
   decision (analyze no_fuzz couplet_book two_line_query) = None"
proof -
  have "\<not> has_kamba_character two_line_query"
    by (simp add: couplet_defs has_kamba_character_def kamba_characters_def sublist_eval)
  then show ?thesis
    by (simp add: two_line_shape two_line_clean couplet_norm couplet_lines couplet_modern_verb
        couplet_not_verse couplet_strict couplet_threshold couplet_scores couplet_analyze)
qed

subsection \<open>C7: the score of a substring match\<close>

text \<open>
  Claim C7 says that when one of the two normalised texts is a proper substring of the
  other, the score is banded by the ratio of the lengths relative to the longer text. The
  code compares the length of the query with the length of the verse, whichever is
  longer. At the input below the verse is 6 characters inside a query of 14, less than
  half of the longer text, and half of the words of the query occur in the verse: the
  claim gives 80, the code 95.
\<close>

theorem containment_counterexample:
  "sublist (normalize_text (get_or (verse (plain_entry 1 rama_name)) [])) rama_came \<and>
   rama_came \<noteq> normalize_text (get_or (verse (plain_entry 1 rama_name)) []) \<and>
   2 * length rama_name < length rama_came \<and>
   overlap_ratio (length (common_words rama_came rama_name))
     (length (query_word_set rama_came)) = 1/2 \<and>
   verse_score no_fuzz rama_came 1 (plain_entry 1 rama_name) = 95"
  by (simp add: rama_came_props rama_came_overlap rama_came_score plain_entry_verse)

text \<open>
  Claim C7 as amended: for every query and every verse that is no placeholder, when one
  normalised text is a substring of the other and they are not equal, the score is banded
  by the length of the query relative to the length of the verse: 95 when the query has
  at least 80% of the length of the verse (so always when the verse is inside the query),
  85 when at least 50%, and below that 80 when at least half of the words of the query
  occur in the verse and otherwise 70 times the word-overlap ratio, truncated to an
  integer.
\<close>

theorem containment_score_bands:
  assumes "\<not> is_placeholder (get_or (verse vd) [])"
    and "nv = normalize_text (get_or (verse vd) [])"
    and "nq \<noteq> nv" and "sublist nq nv \<or> sublist nv nq"
  shows "verse_score fz nq kb vd =
     (if 10 * length nq \<ge> 8 * length nv then 95
      else if 2 * length nq \<ge> length nv then 85
      else if overlap_ratio (length (common_words nq nv)) (length (query_word_set nq)) \<ge> 1/2
        then 80
      else of_int \<lfloor>70 * overlap_ratio (length (common_words nq nv)) (length (query_word_set nq))\<rfloor>)
     \<and> (sublist nv nq \<longrightarrow> verse_score fz nq kb vd = 95)"
proof -
  have vs: "verse_score fz nq kb vd = containment_score nq nv"
    using assms by (simp add: verse_score_def Let_def)
  have c1: "(of_nat (length nq) \<ge> of_nat (length nv) * (8/10 :: rat)) \<longleftrightarrow>
            10 * length nq \<ge> 8 * length nv"
  proof -
    have "(of_nat (length nq) \<ge> of_nat (length nv) * (8/10 :: rat)) \<longleftrightarrow>
          (of_nat (8 * length nv) :: rat) \<le> of_nat (10 * length nq)"
      by (simp add: field_simps)
    then show ?thesis unfolding of_nat_le_iff .
  qed
  have c2: "(of_nat (length nq) \<ge> of_nat (length nv) * (5/10 :: rat)) \<longleftrightarrow>
            2 * length nq \<ge> length nv"
  proof -
    have "(of_nat (length nq) \<ge> of_nat (length nv) * (5/10 :: rat)) \<longleftrightarrow>
          (of_nat (length nv) :: rat) \<le> of_nat (2 * length nq)"
      by (simp add: field_simps)
    then show ?thesis unfolding of_nat_le_iff .
  qed
  have p: "py_int (70 * overlap_ratio k n) = of_int \<lfloor>70 * overlap_ratio k n\<rfloor>" for k n
    using overlap_ratio_nonneg[of k n] by (simp add: py_int_def)
  have a: "verse_score fz nq kb vd =
     (if 10 * length nq \<ge> 8 * length nv then 95
      else if 2 * length nq \<ge> length nv then 85
      else if overlap_ratio (length (common_words nq nv)) (length (query_word_set nq)) \<ge> 1/2
        then 80
      else of_int \<lfloor>70 * overlap_ratio (length (common_words nq nv)) (length (query_word_set nq))\<rfloor>)"
    unfolding vs containment_score_def containment_bands_def c1 c2 p by simp
  have b: "verse_score fz nq kb vd = 95" if "sublist nv nq"
  proof -
    have "length nv \<le> length nq" using that by (rule sublist_length_le)
    then have "10 * length nq \<ge> 8 * length nv" by simp
    then show ?thesis unfolding vs containment_score_def containment_bands_def c1 by simp
  qed
  show ?thesis using a b by blast
qed

theorem containment_score_bands_witness:
  "sublist rama_line rama_verse_long \<and> rama_line \<noteq> rama_verse_long \<and>
   verse_score no_fuzz rama_line 1 (plain_entry 2 rama_verse_long) = 85"
proof -
  have p: "\<not> is_placeholder (get_or (verse (plain_entry 2 rama_verse_long)) [])"
    by (simp add: entry_eval long_props)
  have n: "rama_verse_long = normalize_text (get_or (verse (plain_entry 2 rama_verse_long)) [])"
    by (simp add: entry_eval long_norm)
  have s: "sublist rama_line rama_verse_long \<or> sublist rama_verse_long rama_line"
    by (simp add: long_props)
  from containment_score_bands[OF p n long_props(4) s, of no_fuzz 1]
  show ?thesis by (simp add: long_props rama_len)
qed

subsection \<open>C8: monotonicity in the word overlap\<close>

text \<open>
  Claim C8 says that in the fuzzy branch, for a fixed fuzzy score and a fixed number of
  query words, a higher word-overlap ratio never gives a lower score. For a fuzzy score of
  95 or more the score also depends on the length of the verse. At the input below the
  fuzzy score is 95 for both verses and the query has four words: the first verse shares
  one word with the query and is short enough to keep the 95, the second shares two words
  and is long enough to be checked for overlap, and scores 0.
\<close>

theorem overlap_monotone_counterexample:
  "overlap_ratio (length (common_words letters_query letters_verse_a))
     (length (query_word_set letters_query)) <
   overlap_ratio (length (common_words letters_query letters_verse_b))
     (length (query_word_set letters_query)) \<and>
   verse_score fuzz95 letters_query 1 (plain_entry 1 letters_verse_a) = 95 \<and>
   verse_score fuzz95 letters_query 1 (plain_entry 2 letters_verse_b) = 0"
  by (simp add: letters_overlap letters_scores overlap_ratio_def)

text \<open>
  Claim C8 as amended: in the fuzzy branch, for a fixed fuzzy score that is not negative
  and a fixed number of query words, a higher word-overlap ratio never gives a lower
  score, provided the lengths of the query and of the verse are fixed too or the fuzzy
  score is below 95.
\<close>

theorem fuzzy_score_monotone:
  assumes "0 \<le> s"
    and "overlap_ratio k1 n \<le> overlap_ratio k2 n"
    and "(ql1 = ql2 \<and> vl1 = vl2) \<or> s < 95"
  shows "fuzzy_validate s ql1 vl1 k1 n \<le> fuzzy_validate s ql2 vl2 k2 n"
proof -
  have "k1 \<le> k2 \<or> overlap_ratio k1 n = overlap_ratio k2 n"
    using assms(2) by (auto simp: overlap_ratio_def divide_le_cancel split: if_splits)
  then have a: "fuzzy_validate s ql1 vl1 k1 n \<le> fuzzy_validate s ql1 vl1 k2 n"
  proof
    assume "k1 \<le> k2" then show ?thesis using assms(1) by (intro fuzzy_validate_mono)
  next
    assume "overlap_ratio k1 n = overlap_ratio k2 n"
    then show ?thesis by (simp add: fuzzy_validate_def)
  qed
  from assms(3) have "fuzzy_validate s ql1 vl1 k2 n = fuzzy_validate s ql2 vl2 k2 n"
    using fuzzy_validate_low by auto
  then show ?thesis using a by simp
qed

theorem fuzzy_score_monotone_witness:
  "overlap_ratio 1 4 \<le> overlap_ratio 3 4 \<and>
   fuzzy_validate 90 10 20 1 4 \<le> fuzzy_validate 90 10 20 3 4 \<and>
   fuzzy_validate 90 10 20 1 4 = 33 \<and> fuzzy_validate 90 10 20 3 4 = 90"
proof -
  have s: "(0::rat) \<le> 90" by simp
  have l: "((10::nat) = 10 \<and> (20::nat) = 20) \<or> (90::rat) < 95" by simp
  from fuzzy_score_monotone[OF s fuzzy_validate_values(3) l]
  have "fuzzy_validate 90 10 20 1 4 \<le> fuzzy_validate 90 10 20 3 4" .
  then show ?thesis using fuzzy_validate_values by blast
qed

subsection \<open>C9: the meaning field is not used\<close>

text \<open>
  Claim C9: for every query, two snapshots of the corpora that differ in meaning fields
  only give the same decision: both find nothing, or both find the verse of the same
  book with the same number and the same text, with the same confidence.
\<close>

theorem meaning_not_used:
  assumes "same_but_meanings (thirukkural_db self) (thirukkural_db self')"
    and "same_but_meanings (kamba_db self) (kamba_db self')"
  shows "decision (analyze fz self' text) = decision (analyze fz self text)"
proof -
  let ?q = "preprocess_for_analysis text"
  have r: "rel_option match_rel (fuzzy_search_all_books fz self ?q)
             (fuzzy_search_all_books fz self' ?q)"
    using assms by (rule fuzzy_search_rel)
  show ?thesis
  proof (cases "fuzzy_search_all_books fz self ?q")
    case None
    then have "fuzzy_search_all_books fz self' ?q = None" using r by simp
    then show ?thesis using None
      by (simp add: analyze_def Let_def decision_def generate_generic_analysis_def)
  next
    case (Some m)
    then obtain m' where m': "fuzzy_search_all_books fz self' ?q = Some m'" "match_rel m m'"
      using r by (auto simp: option_rel_Some1)
    have "verse (entry m') = verse (entry m)"
      using m'(2) same_but_meaning_fields(1) by (simp add: match_rel_def)
    then show ?thesis using Some m'
      by (simp add: analyze_def Let_def decision_def match_rel_def)
  qed
qed

theorem meaning_not_used_witness:
  "same_but_meanings (thirukkural_db thirukkural_only) (thirukkural_db thirukkural_glossed) \<and>
   same_but_meanings (kamba_db thirukkural_only) (kamba_db thirukkural_glossed) \<and>
   decision (analyze no_fuzz thirukkural_glossed rama_line) =
     Some (thirukkural, ascii_one, rama_line, 75/100)"
  using meaning_not_used[OF glossed_same, of no_fuzz rama_line] glossed_same
  by (simp add: thirukkural_only_analyze decision_def)

subsection \<open>C10: the range of the fallback sentiment score\<close>

text \<open>
  Claim C10: the sentiment score is not confined to the range from 0.0 to 1.0. For every
  text in which some word contains a negative keyword and no word contains a positive one
  the score is exactly -0.2, and for every text in which some word contains a positive
  keyword and no word contains a negative one it is exactly 1.2.
\<close>

theorem sentiment_score_one_sided:
  "(count_matching positive_words (str_split text) = 0 \<and>
    count_matching negative_words (str_split text) > 0 \<longrightarrow>
      score (analyze_sentiment text) = - (2/10) \<and> label (analyze_sentiment text) = Negative) \<and>
   (count_matching positive_words (str_split text) > 0 \<and>
    count_matching negative_words (str_split text) = 0 \<longrightarrow>
      score (analyze_sentiment text) = 12/10 \<and> label (analyze_sentiment text) = Positive)"
  by (auto simp: analyze_sentiment_def Let_def round2_def)

theorem sentiment_score_one_sided_witness:
  "count_matching positive_words (str_split pain_word) = 0 \<and>
   count_matching negative_words (str_split pain_word) > 0 \<and>
   score (analyze_sentiment pain_word) = - (2/10) \<and>
   count_matching positive_words (str_split thanks_word) > 0 \<and>
   count_matching negative_words (str_split thanks_word) = 0 \<and>
   score (analyze_sentiment thanks_word) = 12/10"
  using sentiment_score_one_sided[of pain_word] sentiment_score_one_sided[of thanks_word]
    pain_counts thanks_counts
  by simp

end
